theory Spec2Isabelle
  imports Complex_Main
begin

section \<open>Python values\<close>

text \<open>
  A Python \<open>str\<close> is a sequence of Unicode code points, so \<open>len\<close> and slicing count code
  points. ASCII literals are written through \<open>ascii\<close>; the few non-ASCII literals of
  \<open>main.py\<close> that the model needs are spelled out as code point lists further down.
  Python floats are modelled as exact reals: rounding is not part of the model.
\<close>

type_synonym pystr = "nat list"

definition ascii :: "string \<Rightarrow> pystr" where
  "ascii s = map of_char s"

text \<open>What \<open>json.loads\<close> returns. An object is the list of items of the parsed dict.\<close>

datatype json =
    JNull
  | JBool bool
  | JNum real
  | JStr pystr
  | JArr "json list"
  | JObj "(pystr \<times> json) list"

text \<open>Exceptions that the modelled code can meet. \<open>ExternalError\<close> is anything raised by a
  collaborator (provider, conversation manager, event queue), with its \<open>str(e)\<close>.\<close>

datatype exn =
    ZeroDivisionError
  | AttributeError
  | TypeError
  | ExternalError pystr

text \<open>The outcome of a call into a collaborator.\<close>

datatype 'a ext =
    Raises exn
  | Returns 'a

section \<open>Data classes of \<open>main.py\<close>\<close>

text \<open>
  \<open>JudgeResult.reasoning\<close> is a string. The failure results build it from a fixed literal
  and at most one interpolated value; each such f-string is one constructor here:
  \<^item> \<open>Reasoning v\<close>: the value \<open>v\<close> itself, taken from the key \<open>"reasoning"\<close> of the judge's
    JSON object; the empty string is \<open>Reasoning (JStr [])\<close>;
  \<^item> \<open>ProviderNotConfigured\<close>: the literal of line 206 (provider not configured);
  \<^item> \<open>ProviderNotFound n\<close>: line 213 (provider does not exist: n);
  \<^item> \<open>ProviderLookupFailed e\<close>: line 216 (getting the provider failed: e);
  \<^item> \<open>RetriesExhausted r\<close>: line 384 (JSON parsing failed, retried r times);
  \<^item> \<open>ExceptionReason e\<close>: line 395 (exception: e).
\<close>

datatype reason =
    Reasoning json
  | ProviderNotConfigured
  | ProviderNotFound pystr
  | ProviderLookupFailed exn
  | RetriesExhausted int
  | ExceptionReason exn

record JudgeResult =
  relevance :: real
  willingness :: real
  social :: real
  timing :: real
  continuity :: real
  reasoning :: reason
  should_reply :: bool
  confidence :: real
  overall_score :: real
  related_messages :: "pystr list"

text \<open>\<open>JudgeResult(should_reply=False, reasoning=r)\<close>: every other field at its default.\<close>

definition failure_result :: "reason \<Rightarrow> JudgeResult" where
  "failure_result r =
     \<lparr>relevance = 0, willingness = 0, social = 0, timing = 0, continuity = 0,
      reasoning = r, should_reply = False, confidence = 0, overall_score = 0,
      related_messages = []\<rparr>"

record ChatState =
  energy :: real
  last_reply_time :: real
  last_reset_date :: pystr
  total_messages :: int
  total_replies :: int

definition ChatState_default :: ChatState where
  "ChatState_default =
     \<lparr>energy = 1, last_reply_time = 0, last_reset_date = [], total_messages = 0,
      total_replies = 0\<rparr>"

text \<open>The part of \<open>AstrMessageEvent\<close> that the plugin reads and writes.\<close>

record event =
  unified_msg_origin :: pystr
  sender_id :: pystr
  message_str :: pystr
  is_at_or_wake_command :: bool

text \<open>The dict \<open>message_info\<close> built by \<open>_enter_silent_wait\<close>.\<close>

record message_info =
  timestamp :: real
  content :: pystr
  msg_event :: event

text \<open>\<open>timer_task\<close> holds the handle of an \<open>asyncio.Task\<close>: its index in the task table of
  the event loop model below.\<close>

record UserWaitState =
  user_id :: pystr
  start_time :: real
  accumulated_messages :: "message_info list"
  timer_task :: "nat option"
  waiting_since :: real

text \<open>One value of \<open>system_prompt_cache\<close>.\<close>

record cache_entry =
  original :: pystr
  summarized :: pystr
  persona_id :: "pystr option"

record weights =
  w_relevance :: real
  w_willingness :: real
  w_social :: real
  w_timing :: real
  w_continuity :: real

text \<open>The attributes of \<open>HeartflowPlugin\<close> that the modelled methods use.\<close>

record plugin =
  judge_provider_name :: pystr
  reply_threshold :: real
  energy_decay_rate :: real
  energy_recovery_rate :: real
  silent_wait_duration :: real
  chat_states :: "pystr \<rightharpoonup> ChatState"
  user_wait_states :: "pystr \<rightharpoonup> UserWaitState"
  system_prompt_cache :: "pystr \<rightharpoonup> cache_entry"
  judge_include_reasoning :: bool
  judge_max_retries :: int
  weights :: weights

section \<open>Construction: \<open>HeartflowPlugin.__init__\<close>\<close>

text \<open>The configuration dict: a key that is absent is \<open>None\<close>, and \<open>config.get(key, d)\<close>
  then yields the default \<open>d\<close>.\<close>

record config =
  cfg_judge_provider_name :: "pystr option"
  cfg_reply_threshold :: "real option"
  cfg_energy_decay_rate :: "real option"
  cfg_energy_recovery_rate :: "real option"
  cfg_judge_include_reasoning :: "bool option"
  cfg_judge_max_retries :: "int option"
  cfg_judge_relevance :: "real option"
  cfg_judge_willingness :: "real option"
  cfg_judge_social :: "real option"
  cfg_judge_timing :: "real option"
  cfg_judge_continuity :: "real option"

definition config_get :: "'a option \<Rightarrow> 'a \<Rightarrow> 'a" where
  "config_get v d = (case v of None \<Rightarrow> d | Some x \<Rightarrow> x)"

definition raw_weights :: "config \<Rightarrow> weights" where
  "raw_weights cfg =
     \<lparr>w_relevance = config_get (cfg_judge_relevance cfg) 0.25,
      w_willingness = config_get (cfg_judge_willingness cfg) 0.2,
      w_social = config_get (cfg_judge_social cfg) 0.2,
      w_timing = config_get (cfg_judge_timing cfg) 0.15,
      w_continuity = config_get (cfg_judge_continuity cfg) 0.2\<rparr>"

text \<open>\<open>sum(self.weights.values())\<close>\<close>

definition weight_sum :: "weights \<Rightarrow> real" where
  "weight_sum w = w_relevance w + w_willingness w + w_social w + w_timing w + w_continuity w"

text \<open>\<open>{k: v / weight_sum for k, v in self.weights.items()}\<close>; the caller has excluded a zero
  divisor.\<close>

definition divide_weights :: "weights \<Rightarrow> real \<Rightarrow> weights" where
  "divide_weights w s =
     \<lparr>w_relevance = w_relevance w / s, w_willingness = w_willingness w / s,
      w_social = w_social w / s, w_timing = w_timing w / s,
      w_continuity = w_continuity w / s\<rparr>"

text \<open>Lines 93-99. Python's \<open>/\<close> raises \<open>ZeroDivisionError\<close> on a zero divisor, for ints and
  for floats; the comprehension divides the first weight first, so the error is raised before
  any weight is stored.\<close>

definition normalize_weights :: "weights \<Rightarrow> exn + weights" where
  "normalize_weights w =
     (if \<bar>weight_sum w - 1\<bar> > 1 / 1000000
      then (if weight_sum w = 0 then Inl ZeroDivisionError
            else Inr (divide_weights w (weight_sum w)))
      else Inr w)"

definition init :: "config \<Rightarrow> exn + plugin" where
  "init cfg =
     (case normalize_weights (raw_weights cfg) of
        Inl e \<Rightarrow> Inl e
      | Inr w \<Rightarrow>
          Inr \<lparr>judge_provider_name = config_get (cfg_judge_provider_name cfg) [],
               reply_threshold = config_get (cfg_reply_threshold cfg) 0.6,
               energy_decay_rate = config_get (cfg_energy_decay_rate cfg) 0.1,
               energy_recovery_rate = config_get (cfg_energy_recovery_rate cfg) 0.02,
               silent_wait_duration = 6,
               chat_states = Map.empty,
               user_wait_states = Map.empty,
               system_prompt_cache = Map.empty,
               judge_include_reasoning = config_get (cfg_judge_include_reasoning cfg) True,
               judge_max_retries = max 0 (config_get (cfg_judge_max_retries cfg) 3),
               weights = w\<rparr>)"

section \<open>Chat energy: \<open>_get_chat_state\<close>, \<open>_update_active_state\<close>, \<open>_update_passive_state\<close>\<close>

text \<open>\<open>today\<close> is \<open>datetime.date.today().isoformat()\<close> and \<open>now\<close> is \<open>time.time()\<close> at the call.
  The method returns the state object it has stored; the model returns it with the plugin.\<close>

definition get_chat_state :: "pystr \<Rightarrow> pystr \<Rightarrow> plugin \<Rightarrow> ChatState \<times> plugin" where
  "get_chat_state today chat_id p =
     (let state0 = (case chat_states p chat_id of None \<Rightarrow> ChatState_default | Some s \<Rightarrow> s);
          state = (if last_reset_date state0 \<noteq> today
                   then state0\<lparr>last_reset_date := today,
                               energy := min 1 (energy state0 + 0.2)\<rparr>
                   else state0)
      in (state, p\<lparr>chat_states := (chat_states p)(chat_id \<mapsto> state)\<rparr>))"

definition update_active_state :: "real \<Rightarrow> pystr \<Rightarrow> event \<Rightarrow> plugin \<Rightarrow> plugin" where
  "update_active_state now today ev p =
     (let chat_id = unified_msg_origin ev;
          (chat_state, p1) = get_chat_state today chat_id p;
          chat_state' = chat_state\<lparr>last_reply_time := now,
                                    total_replies := total_replies chat_state + 1,
                                    total_messages := total_messages chat_state + 1,
                                    energy := max 0.1 (energy chat_state - energy_decay_rate p)\<rparr>
      in p1\<lparr>chat_states := (chat_states p1)(chat_id \<mapsto> chat_state')\<rparr>)"

definition update_passive_state :: "pystr \<Rightarrow> event \<Rightarrow> plugin \<Rightarrow> plugin" where
  "update_passive_state today ev p =
     (let chat_id = unified_msg_origin ev;
          (chat_state, p1) = get_chat_state today chat_id p;
          chat_state' = chat_state\<lparr>total_messages := total_messages chat_state + 1,
                                    energy := min 1 (energy chat_state + energy_recovery_rate p)\<rparr>
      in p1\<lparr>chat_states := (chat_states p1)(chat_id \<mapsto> chat_state')\<rparr>)"

text \<open>A finite sequence of calls of the three methods, each with the clock and the calendar
  date it meets.\<close>

datatype state_call =
    GetChatState pystr pystr
  | UpdateActive real pystr event
  | UpdatePassive pystr event

fun state_call_run :: "plugin \<Rightarrow> state_call \<Rightarrow> plugin" where
  "state_call_run p (GetChatState today chat_id) = snd (get_chat_state today chat_id p)"
| "state_call_run p (UpdateActive now today ev) = update_active_state now today ev p"
| "state_call_run p (UpdatePassive today ev) = update_passive_state today ev p"

definition state_calls_run :: "plugin \<Rightarrow> state_call list \<Rightarrow> plugin" where
  "state_calls_run p calls = foldl state_call_run p calls"

text \<open>The interval \<open>[0.1, 1.0]\<close>, and the plugin states all of whose chats are inside it.\<close>

definition energy_valid :: "real \<Rightarrow> bool" where
  "energy_valid e \<longleftrightarrow> 0.1 \<le> e \<and> e \<le> 1"

definition energy_in_range :: "plugin \<Rightarrow> bool" where
  "energy_in_range p \<longleftrightarrow>
     (\<forall>chat_id cs. chat_states p chat_id = Some cs \<longrightarrow> energy_valid (energy cs))"

section \<open>String operations\<close>

text \<open>\<open>str.isspace\<close> of one code point: the characters that \<open>str.strip()\<close> removes.\<close>

definition is_space :: "nat \<Rightarrow> bool" where
  "is_space c \<longleftrightarrow>
     (9 \<le> c \<and> c \<le> 13) \<or> (28 \<le> c \<and> c \<le> 32) \<or> c = 133 \<or> c = 160 \<or> c = 5760 \<or>
     (8192 \<le> c \<and> c \<le> 8202) \<or> c = 8232 \<or> c = 8233 \<or> c = 8239 \<or> c = 8287 \<or> c = 12288"

definition strip :: "pystr \<Rightarrow> pystr" where
  "strip s = rev (dropWhile is_space (rev (dropWhile is_space s)))"

definition startswith :: "pystr \<Rightarrow> pystr \<Rightarrow> bool" where
  "startswith s pre \<longleftrightarrow> take (length pre) s = pre"

text \<open>\<open>s.replace(old, new)\<close> for a non-empty \<open>old\<close> (every call site passes a non-empty
  literal): all non-overlapping occurrences, leftmost first. With an empty \<open>old\<close> the model
  leaves \<open>s\<close> as it is, which is not what Python does.\<close>

function replace :: "pystr \<Rightarrow> pystr \<Rightarrow> pystr \<Rightarrow> pystr" where
  "replace [] old new = []"
| "replace (c # cs) old new =
     (if old \<noteq> [] \<and> startswith (c # cs) old
      then new @ replace (drop (length old) (c # cs)) old new
      else c # replace cs old new)"
  by pat_completeness auto
termination
  by (relation "measure (\<lambda>(s, old, new). length s)") auto


text \<open>Lines 336-339 (and 179-182): dropping the code fence markers.\<close>

definition extract_json :: "pystr \<Rightarrow> pystr" where
  "extract_json s =
     (if startswith s (ascii ''```json'')
      then strip (replace (replace s (ascii ''```json'') []) (ascii ''```'') [])
      else if startswith s (ascii ''```'')
      then strip (replace s (ascii ''```'') [])
      else s)"

section \<open>The instruction text of the judge call\<close>

text \<open>The literal of line 310: the opening sentence of the complete prompt.\<close>

definition system_intro :: pystr where
  "system_intro =
      [20320, 26159, 19968, 20010, 19987, 19994, 30340, 32676, 32842, 22238, 22797,
       20915, 31574, 31995, 32479, 65292, 33021, 22815, 20934, 30830, 21028, 26029,
       28040, 24687, 20215, 20540, 21644, 22238, 22797, 26102, 26426, 12290]"

text \<open>Line 312: two newlines, "you are deciding for the bot with this persona:", newline.\<close>

definition persona_intro :: pystr where
  "persona_intro =
      [10, 10, 20320, 27491, 22312, 20026, 20197, 19979, 35282, 33394, 30340, 26426,
       22120, 20154, 20570, 20915, 31574, 65306, 10]"

text \<open>The reminder of line 313 without its closing \<open>**\<close>: "**Important: you must return the
  result strictly as JSON, with nothing else! Do not converse, return JSON only!". The
  replacement text of line 389 starts with the same code points.\<close>

definition reminder_head :: pystr where
  "reminder_head =
      [42, 42, 37325, 35201, 25552, 37266, 65306, 20320, 24517, 39035, 20005, 26684,
       25353, 29031, 74, 83, 79, 78, 26684, 24335, 36820, 22238, 32467, 26524, 65292,
       19981, 35201, 21253, 21547, 20219, 20309, 20854, 20182, 20869, 23481, 65281,
       35831, 19981, 35201, 36827, 34892, 23545, 35805, 65292, 21482, 36820, 22238, 74,
       83, 79, 78, 65281]"

text \<open>The first argument of \<open>replace\<close> on line 388, which is also what line 313 appends.\<close>

definition json_reminder :: pystr where
  "json_reminder = reminder_head @ ascii ''**''"


text \<open>Lines 310-314. \<open>judge_prompt\<close> is the f-string of lines 238-303.\<close>

definition complete_judge_prompt :: "pystr \<Rightarrow> pystr \<Rightarrow> pystr" where
  "complete_judge_prompt persona_system_prompt judge_prompt =
     system_intro @
     (if persona_system_prompt \<noteq> [] then persona_intro @ persona_system_prompt else []) @
     [10, 10] @ json_reminder @ [10, 10] @ judge_prompt"


section \<open>Scoring a parsed response: lines 343-375\<close>

text \<open>\<open>d.get(key, default)\<close> on the items of a dict.\<close>

definition dict_get :: "(pystr \<times> json) list \<Rightarrow> pystr \<Rightarrow> json \<Rightarrow> json" where
  "dict_get items k d = (case map_of items k of None \<Rightarrow> d | Some v \<Rightarrow> v)"

text \<open>The number a JSON value stands for in arithmetic: a bool is an int in Python; for any
  other non-number the weighted sum of lines 351-357 raises \<open>TypeError\<close>.\<close>

definition py_num :: "json \<Rightarrow> real option" where
  "py_num v = (case v of JNum x \<Rightarrow> Some x | JBool b \<Rightarrow> Some (if b then 1 else 0) | _ \<Rightarrow> None)"

definition weighted_score :: "weights \<Rightarrow> real \<Rightarrow> real \<Rightarrow> real \<Rightarrow> real \<Rightarrow> real \<Rightarrow> real" where
  "weighted_score w rel wil soc tim con =
     (rel * w_relevance w + wil * w_willingness w + soc * w_social w +
      tim * w_timing w + con * w_continuity w) / 10"

text \<open>A value without the method \<open>get\<close> (anything but a dict) raises \<open>AttributeError\<close> on
  line 344.\<close>

definition score_judge_data :: "plugin \<Rightarrow> json \<Rightarrow> exn + JudgeResult" where
  "score_judge_data p judge_data =
     (case judge_data of
        JObj items \<Rightarrow>
          (case (py_num (dict_get items (ascii ''relevance'') (JNum 0)),
                 py_num (dict_get items (ascii ''willingness'') (JNum 0)),
                 py_num (dict_get items (ascii ''social'') (JNum 0)),
                 py_num (dict_get items (ascii ''timing'') (JNum 0)),
                 py_num (dict_get items (ascii ''continuity'') (JNum 0))) of
             (Some rel, Some wil, Some soc, Some tim, Some con) \<Rightarrow>
               (let score = weighted_score (weights p) rel wil soc tim con;
                    reply = (score \<ge> reply_threshold p)
                in Inr \<lparr>relevance = rel, willingness = wil, social = soc,
                        timing = tim, continuity = con,
                        reasoning = (if judge_include_reasoning p
                                     then Reasoning (dict_get items (ascii ''reasoning'') (JStr []))
                                     else Reasoning (JStr [])),
                        should_reply = reply, confidence = score,
                        overall_score = score, related_messages = []\<rparr>)
           | _ \<Rightarrow> Inl TypeError)
      | _ \<Rightarrow> Inl AttributeError)"

section \<open>Collaborators\<close>

text \<open>
  A provider object, as far as one call of \<open>judge_with_tiny_model\<close> sees it:
  \<open>judge_chat attempt prompt\<close> is what \<open>text_chat\<close> does when the retry loop calls it in
  iteration \<open>attempt\<close> with \<open>prompt\<close> (it returns \<open>completion_text\<close> or raises), and
  \<open>summary_chat original\<close> is what it does for the summarisation prompt built around
  \<open>original\<close> on lines 157-168.
\<close>

record provider =
  judge_chat :: "nat \<Rightarrow> pystr \<Rightarrow> pystr ext"
  summary_chat :: "pystr \<Rightarrow> pystr ext"

text \<open>
  Everything else the plugin reads from outside during one call:
  \<^item> \<open>today\<close>: \<open>datetime.date.today().isoformat()\<close>;
  \<^item> \<open>get_provider_by_id\<close>: \<open>self.context.get_provider_by_id\<close>;
  \<^item> \<open>json_loads\<close>: \<open>json.loads\<close>, \<open>None\<close> standing for \<open>JSONDecodeError\<close>;
  \<^item> \<open>persona_prompt\<close>: what \<open>_get_persona_system_prompt\<close> returns (it catches every
    exception itself);
  \<^item> \<open>curr_conversation_id\<close>, \<open>conversation_persona_id\<close>: the conversation manager's
    \<open>get_curr_conversation_id\<close>, and \<open>get_conversation\<close> reduced to the \<open>persona_id\<close> of the
    conversation it returns (the outer \<open>None\<close>: no conversation);
  \<^item> \<open>judge_prompt_text persona\<close>: the f-string of lines 238-303 for the persona text put
    into it, its other fields being read from the event, the chat state and the history.
\<close>

record env =
  today :: pystr
  get_provider_by_id :: "pystr \<Rightarrow> provider option ext"
  json_loads :: "pystr \<Rightarrow> json option"
  persona_prompt :: pystr
  curr_conversation_id :: "pystr option ext"
  conversation_persona_id :: "pystr option option ext"
  judge_prompt_text :: "pystr \<Rightarrow> pystr"

section \<open>Persona summary: \<open>_summarize_system_prompt\<close>, \<open>_get_or_create_summarized_system_prompt\<close>\<close>

text \<open>Lines 178-195, from the stripped completion text to the summary: \<open>None\<close> where the
  source falls back to the original prompt (undecodable text, a value that is not a dict, a
  summary that is empty, not a string, or of at most 10 characters after stripping).\<close>

definition parse_summary :: "(pystr \<Rightarrow> json option) \<Rightarrow> pystr \<Rightarrow> pystr option" where
  "parse_summary loads stripped =
     (case loads (extract_json stripped) of
        None \<Rightarrow> None
      | Some (JObj items) \<Rightarrow>
          (case dict_get items (ascii ''summarized_persona'') (JStr []) of
             JStr summary \<Rightarrow>
               (if summary \<noteq> [] \<and> length (strip summary) > 10
                then Some (strip summary) else None)
           | _ \<Rightarrow> None)
      | Some _ \<Rightarrow> None)"

text \<open>The result, and the number of \<open>text_chat\<close> calls made.\<close>

definition summarize_system_prompt :: "plugin \<Rightarrow> env \<Rightarrow> pystr \<Rightarrow> pystr \<times> nat" where
  "summarize_system_prompt p e original_prompt =
     (if judge_provider_name p = [] then (original_prompt, 0)
      else case get_provider_by_id e (judge_provider_name p) of
             Raises x \<Rightarrow> (original_prompt, 0)
           | Returns None \<Rightarrow> (original_prompt, 0)
           | Returns (Some judge_provider) \<Rightarrow>
               (case summary_chat judge_provider original_prompt of
                  Raises x \<Rightarrow> (original_prompt, 1)
                | Returns completion_text \<Rightarrow>
                    (case parse_summary (json_loads e) (strip completion_text) of
                       None \<Rightarrow> (original_prompt, 1)
                     | Some summary \<Rightarrow> (summary, 1))))"

text \<open>\<open>f"{curr_cid}_{persona_id}"\<close>; the f-string writes \<open>None\<close> as the word.\<close>

definition cache_key_of :: "pystr \<Rightarrow> pystr option \<Rightarrow> pystr" where
  "cache_key_of curr_cid persona =
     curr_cid @ ascii ''_'' @ (case persona of None \<Rightarrow> ascii ''None'' | Some n \<Rightarrow> n)"

text \<open>The result, the plugin with its cache, and the number of \<open>text_chat\<close> calls made.\<close>

definition get_or_create_summarized_system_prompt ::
    "plugin \<Rightarrow> env \<Rightarrow> pystr \<Rightarrow> pystr \<times> plugin \<times> nat" where
  "get_or_create_summarized_system_prompt p e original_prompt =
     (case curr_conversation_id e of
        Raises x \<Rightarrow> (original_prompt, p, 0)
      | Returns None \<Rightarrow> (original_prompt, p, 0)
      | Returns (Some curr_cid) \<Rightarrow>
          if curr_cid = [] then (original_prompt, p, 0)
          else (case conversation_persona_id e of
             Raises x \<Rightarrow> (original_prompt, p, 0)
           | Returns conversation \<Rightarrow>
               (let persona = (case conversation of None \<Rightarrow> Some (ascii ''default'')
                                                   | Some pid \<Rightarrow> pid);
                    cache_key = cache_key_of curr_cid persona;
                    hit = (case system_prompt_cache p cache_key of
                             None \<Rightarrow> None
                           | Some cached \<Rightarrow>
                               if original cached = original_prompt
                               then Some (summarized cached) else None)
                in case hit of
                     Some s \<Rightarrow> (s, p, 0)
                   | None \<Rightarrow>
                       if original_prompt = [] \<or> length (strip original_prompt) < 50
                       then (original_prompt, p, 0)
                       else (let (summarized_prompt, calls) =
                                   summarize_system_prompt p e original_prompt
                             in (summarized_prompt,
                                 p\<lparr>system_prompt_cache := (system_prompt_cache p)
                                      (cache_key \<mapsto> \<lparr>original = original_prompt,
                                                      summarized = summarized_prompt,
                                                      persona_id = persona\<rparr>)\<rparr>,
                                 calls)))))"

section \<open>The judgment: \<open>judge_with_tiny_model\<close>\<close>




text \<open>Lines 218-314: from the chat state to the complete prompt. \<open>_get_chat_state\<close> runs on
  line 219, inside \<open>_build_chat_context\<close> (line 230) and inside
  \<open>_get_minutes_since_last_reply\<close> (line 247).\<close>

definition prepare_judgment :: "plugin \<Rightarrow> env \<Rightarrow> event \<Rightarrow> pystr \<times> plugin" where
  "prepare_judgment p e ev =
     (let (chat_state, p1) = get_chat_state (today e) (unified_msg_origin ev) p;
          original_persona_prompt = persona_prompt e;
          (persona_system_prompt, p2, calls) =
             get_or_create_summarized_system_prompt p1 e original_persona_prompt;
          (chat_state2, p3) = get_chat_state (today e) (unified_msg_origin ev) p2;
          (chat_state3, p4) = get_chat_state (today e) (unified_msg_origin ev) p3;
          judge_prompt = judge_prompt_text e persona_system_prompt
      in (complete_judge_prompt persona_system_prompt judge_prompt, p4))"


section \<open>Debounce: \<open>_enter_silent_wait\<close>, \<open>_wait_and_reply\<close>, \<open>_combine_user_messages\<close>\<close>

text \<open>\<open>f"{chat_id}_{user_id}"\<close>\<close>

definition user_key_of :: "pystr \<Rightarrow> pystr \<Rightarrow> pystr" where
  "user_key_of chat_id uid = chat_id @ ascii ''_'' @ uid"

text \<open>\<open>"\n".join(parts)\<close>\<close>

fun join_lines :: "pystr list \<Rightarrow> pystr" where
  "join_lines [] = []"
| "join_lines [s] = s"
| "join_lines (s # t # ss) = s @ [10] @ join_lines (t # ss)"

text \<open>Lines 719-736. The result is the event object of the first message, with its
  \<open>message_str\<close> overwritten.\<close>

definition combine_user_messages :: "message_info list \<Rightarrow> event option" where
  "combine_user_messages accumulated =
     (case accumulated of
        [] \<Rightarrow> None
      | m # ms \<Rightarrow> Some ((msg_event m)\<lparr>message_str := join_lines (map content accumulated)\<rparr>))"

text \<open>
  The event loop, as far as the timers need it. \<open>asyncio\<close> runs one task at a time and
  switches only at an \<open>await\<close> that suspends. \<open>_wait_and_reply\<close> suspends at
  \<open>asyncio.sleep\<close>; \<open>put\<close> on the unbounded event queue returns without suspending. So a
  timer task is in one of three states:
  \<^item> \<open>Sleeping d\<close>: suspended in \<open>asyncio.sleep\<close>, to be resumed at a time \<open>d\<close> or later;
  \<^item> \<open>CancelRequested\<close>: \<open>cancel()\<close> was called on it while it slept; \<open>CancelledError\<close> is
    raised inside it when the loop resumes it;
  \<^item> \<open>Finished\<close>: the coroutine has returned. Only then is \<open>Task.done()\<close> true: while the
    coroutine runs, its \<open>finally\<close> block included, \<open>done()\<close> of its own task is false.
  A task handle is the index of the task in the table, in order of \<open>create_task\<close>.
\<close>

datatype task_status =
    Sleeping real
  | CancelRequested
  | Finished

record task =
  task_key :: pystr
  task_status :: task_status

text \<open>An item of the downstream event queue: the event put there, annotated with the time of
  the \<open>put\<close>, the task that made it and the messages merged into it.\<close>

record handoff =
  unit_event :: event
  handed_at :: real
  by_task :: nat
  merged :: "message_info list"

record system =
  the_plugin :: plugin
  tasks :: "task list"
  event_queue :: "handoff list"

definition initial_system :: "plugin \<Rightarrow> system" where
  "initial_system p = \<lparr>the_plugin = p, tasks = [], event_queue = []\<rparr>"

text \<open>\<open>Task.done()\<close> and \<open>Task.cancel()\<close>\<close>

definition task_done :: "task list \<Rightarrow> nat \<Rightarrow> bool" where
  "task_done ts t \<longleftrightarrow> t < length ts \<and> task_status (ts ! t) = Finished"

definition task_cancel :: "task list \<Rightarrow> nat \<Rightarrow> task list" where
  "task_cancel ts t =
     (if t < length ts \<and> task_status (ts ! t) \<noteq> Finished
      then ts[t := (ts ! t)\<lparr>task_status := CancelRequested\<rparr>]
      else ts)"

text \<open>Lines 635-636: the timer of the entry, if there is one and it is not done, is
  cancelled.\<close>

definition cancel_timer :: "task list \<Rightarrow> nat option \<Rightarrow> task list" where
  "cancel_timer ts handle =
     (case handle of
        None \<Rightarrow> ts
      | Some t \<Rightarrow> if \<not> task_done ts t then task_cancel ts t else ts)"

text \<open>Lines 617-663, with \<open>current_time = time.time()\<close>. \<open>create_task\<close> appends the new
  timer, which then sleeps for the quiet duration.\<close>

definition enter_silent_wait :: "real \<Rightarrow> event \<Rightarrow> system \<Rightarrow> system" where
  "enter_silent_wait current_time ev sys =
     (let p = the_plugin sys;
          chat_id = unified_msg_origin ev;
          uid = sender_id ev;
          user_key = user_key_of chat_id uid;
          message = \<lparr>timestamp = current_time, content = message_str ev, msg_event = ev\<rparr>;
          new_handle = length (tasks sys);
          new_task = \<lparr>task_key = user_key,
                      task_status = Sleeping (current_time + silent_wait_duration p)\<rparr>
      in case user_wait_states p user_key of
           Some wait_state \<Rightarrow>
             (let tasks1 = cancel_timer (tasks sys) (timer_task wait_state);
                  wait_state' = wait_state
                    \<lparr>accumulated_messages := accumulated_messages wait_state @ [message],
                     waiting_since := current_time,
                     timer_task := Some new_handle\<rparr>
              in sys\<lparr>the_plugin := p\<lparr>user_wait_states :=
                                        (user_wait_states p)(user_key \<mapsto> wait_state')\<rparr>,
                     tasks := tasks1 @ [new_task]\<rparr>)
         | None \<Rightarrow>
             sys\<lparr>the_plugin := p\<lparr>user_wait_states := (user_wait_states p)(user_key \<mapsto>
                     \<lparr>user_id = uid, start_time = current_time,
                      accumulated_messages = [message], timer_task = Some new_handle,
                      waiting_since = current_time\<rparr>)\<rparr>,
                 tasks := tasks sys @ [new_task]\<rparr>)"

text \<open>
  Lines 671-704: what task \<open>self_task\<close> does after its sleep has ended, at time \<open>now\<close> on
  calendar day \<open>day\<close>; \<open>put_ok\<close> says whether \<open>put\<close> on the event queue returns (otherwise it
  raises and line 704 logs). The combined event is the event object of the first accumulated
  message, so what is written to it is seen through that message as well.
\<close>

definition merge_and_reply :: "real \<Rightarrow> pystr \<Rightarrow> bool \<Rightarrow> nat \<Rightarrow> pystr \<Rightarrow> system \<Rightarrow> system" where
  "merge_and_reply now day put_ok self_task user_key sys =
     (let p = the_plugin sys
      in case user_wait_states p user_key of
           None \<Rightarrow> sys
         | Some wait_state \<Rightarrow>
             if now - waiting_since wait_state < silent_wait_duration p - 0.1 then sys
             else (case combine_user_messages (accumulated_messages wait_state) of
                None \<Rightarrow> sys
              | Some base_event \<Rightarrow>
                  (let combined_event = base_event\<lparr>is_at_or_wake_command := True\<rparr>;
                       p1 = update_active_state now day combined_event p;
                       msgs = accumulated_messages wait_state;
                       msgs' = (if put_ok then []
                                else (hd msgs)\<lparr>msg_event := combined_event\<rparr> # tl msgs);
                       wait_state' = wait_state\<lparr>accumulated_messages := msgs'\<rparr>
                   in sys\<lparr>the_plugin := p1\<lparr>user_wait_states :=
                                              (user_wait_states p1)(user_key \<mapsto> wait_state')\<rparr>,
                          event_queue :=
                            (if put_ok
                             then event_queue sys @
                                    [\<lparr>unit_event = combined_event, handed_at = now,
                                      by_task = self_task, merged = msgs\<rparr>]
                             else event_queue sys)\<rparr>)))"

text \<open>Lines 711-717, the \<open>finally\<close> block. It runs inside the task, before the task is
  finished.\<close>

definition cleanup_wait_state :: "pystr \<Rightarrow> system \<Rightarrow> system" where
  "cleanup_wait_state user_key sys =
     (let p = the_plugin sys
      in case user_wait_states p user_key of
           None \<Rightarrow> sys
         | Some wait_state \<Rightarrow>
             (case timer_task wait_state of
                None \<Rightarrow> sys
              | Some t \<Rightarrow>
                  if task_done (tasks sys) t
                  then sys\<lparr>the_plugin := p\<lparr>user_wait_states :=
                                            (user_wait_states p)(user_key := None)\<rparr>\<rparr>
                  else sys))"

definition finish_task :: "nat \<Rightarrow> system \<Rightarrow> system" where
  "finish_task t sys = sys\<lparr>tasks := (tasks sys)[t := (tasks sys ! t)\<lparr>task_status := Finished\<rparr>]\<rparr>"

text \<open>
  The loop resumes task \<open>t\<close> of \<open>_wait_and_reply\<close> at time \<open>now\<close>: \<open>None\<close> if it cannot (no
  such task, a finished task, a sleep that has not ended). A task whose cancellation was
  requested gets \<open>CancelledError\<close> at its \<open>await\<close>: the handler of line 706 logs, and the
  \<open>finally\<close> block runs.
\<close>

definition wait_and_reply :: "real \<Rightarrow> pystr \<Rightarrow> bool \<Rightarrow> nat \<Rightarrow> system \<Rightarrow> system option" where
  "wait_and_reply now day put_ok t sys =
     (if t \<ge> length (tasks sys) then None
      else (let user_key = task_key (tasks sys ! t)
            in case task_status (tasks sys ! t) of
                 Finished \<Rightarrow> None
               | CancelRequested \<Rightarrow> Some (finish_task t (cleanup_wait_state user_key sys))
               | Sleeping deadline \<Rightarrow>
                   if now < deadline then None
                   else Some (finish_task t (cleanup_wait_state user_key
                                (merge_and_reply now day put_ok t user_key sys)))))"

text \<open>What the event loop does, one step at a time: an admitted message reaches
  \<open>_enter_silent_wait\<close>, or a timer task is resumed.\<close>

datatype loop_event =
    Admit real event
  | Resume real pystr bool nat

fun loop_step :: "system \<Rightarrow> loop_event \<Rightarrow> system option" where
  "loop_step sys (Admit current_time ev) = Some (enter_silent_wait current_time ev sys)"
| "loop_step sys (Resume now day put_ok t) = wait_and_reply now day put_ok t sys"

fun loop_run :: "system \<Rightarrow> loop_event list \<Rightarrow> system option" where
  "loop_run sys [] = Some sys"
| "loop_run sys (x # xs) = (case loop_step sys x of None \<Rightarrow> None | Some sys' \<Rightarrow> loop_run sys' xs)"

section \<open>Vocabulary of the statements about the debounce\<close>

text \<open>The key under which \<open>_enter_silent_wait\<close> files a message.\<close>

definition message_key :: "message_info \<Rightarrow> pystr" where
  "message_key m = user_key_of (unified_msg_origin (msg_event m)) (sender_id (msg_event m))"

text \<open>Every sleeping timer is the timer of the entry of its key; that entry holds messages,
  the last of which armed the timer, and the sleep ends one quiet duration after it.\<close>

definition timers_consistent :: "system \<Rightarrow> bool" where
  "timers_consistent s \<longleftrightarrow>
     (\<forall>t d. t < length (tasks s) \<longrightarrow> task_status (tasks s ! t) = Sleeping d \<longrightarrow>
        (\<exists>ws. user_wait_states (the_plugin s) (task_key (tasks s ! t)) = Some ws \<and>
              timer_task ws = Some t \<and> accumulated_messages ws \<noteq> [] \<and>
              timestamp (last (accumulated_messages ws)) = waiting_since ws \<and>
              d = waiting_since ws + silent_wait_duration (the_plugin s)))"

text \<open>At most one live timer per key.\<close>

definition one_timer_per_key :: "system \<Rightarrow> bool" where
  "one_timer_per_key s \<longleftrightarrow>
     (\<forall>t t' d d'. t < length (tasks s) \<longrightarrow> t' < length (tasks s) \<longrightarrow>
        task_status (tasks s ! t) = Sleeping d \<longrightarrow> task_status (tasks s ! t') = Sleeping d' \<longrightarrow>
        task_key (tasks s ! t) = task_key (tasks s ! t') \<longrightarrow> t = t')"

text \<open>Every unit handed downstream merges at least one message and was handed off no earlier
  than one quiet duration after the last message merged into it.\<close>

definition quiet_respected :: "system \<Rightarrow> bool" where
  "quiet_respected s \<longleftrightarrow>
     (\<forall>h \<in> set (event_queue s).
        merged h \<noteq> [] \<and>
        timestamp (last (merged h)) + silent_wait_duration (the_plugin s) \<le> handed_at h)"

text \<open>Every unit is the merge of its messages, in their order, carried by the event of the
  first one and marked as a wake command.\<close>

definition units_merged :: "system \<Rightarrow> bool" where
  "units_merged s \<longleftrightarrow>
     (\<forall>h \<in> set (event_queue s).
        unit_event h =
          (msg_event (hd (merged h)))
            \<lparr>message_str := join_lines (map content (merged h)),
             is_at_or_wake_command := True\<rparr>)"

text \<open>Every unit was handed off by a timer of its own, which has finished.\<close>

definition one_unit_per_timer :: "system \<Rightarrow> bool" where
  "one_unit_per_timer s \<longleftrightarrow>
     distinct (map by_task (event_queue s)) \<and>
     (\<forall>h \<in> set (event_queue s).
        by_task h < length (tasks s) \<and> task_status (tasks s ! by_task h) = Finished)"

text \<open>Messages are filed under their own key, and the messages of one unit share their key.\<close>

definition keys_respected :: "system \<Rightarrow> bool" where
  "keys_respected s \<longleftrightarrow>
     (\<forall>k ws m. user_wait_states (the_plugin s) k = Some ws \<longrightarrow>
        m \<in> set (accumulated_messages ws) \<longrightarrow> message_key m = k) \<and>
     (\<forall>h \<in> set (event_queue s). \<forall>m \<in> set (merged h).
        message_key m = message_key (hd (merged h)))"

text \<open>The five properties together: what every step of the loop keeps.\<close>

definition debounce_invariant :: "system \<Rightarrow> bool" where
  "debounce_invariant s \<longleftrightarrow>
     timers_consistent s \<and> quiet_respected s \<and> units_merged s \<and> one_unit_per_timer s \<and>
     keys_respected s"

section \<open>Concrete inputs\<close>

text \<open>The configuration with no key set, and the plugin built from it.\<close>

definition default_config :: config where
  "default_config =
     \<lparr>cfg_judge_provider_name = None, cfg_reply_threshold = None,
      cfg_energy_decay_rate = None, cfg_energy_recovery_rate = None,
      cfg_judge_include_reasoning = None, cfg_judge_max_retries = None,
      cfg_judge_relevance = None, cfg_judge_willingness = None, cfg_judge_social = None,
      cfg_judge_timing = None, cfg_judge_continuity = None\<rparr>"

definition default_plugin :: plugin where
  "default_plugin =
     \<lparr>judge_provider_name = [], reply_threshold = 0.6, energy_decay_rate = 0.1,
      energy_recovery_rate = 0.02, silent_wait_duration = 6, chat_states = Map.empty,
      user_wait_states = Map.empty, system_prompt_cache = Map.empty,
      judge_include_reasoning = True, judge_max_retries = 3,
      weights = \<lparr>w_relevance = 0.25, w_willingness = 0.2, w_social = 0.2, w_timing = 0.15,
                 w_continuity = 0.2\<rparr>\<rparr>"

text \<open>The configuration whose five weights are all zero.\<close>

definition zero_weights_config :: config where
  "zero_weights_config =
     default_config\<lparr>cfg_judge_relevance := Some 0, cfg_judge_willingness := Some 0,
                     cfg_judge_social := Some 0, cfg_judge_timing := Some 0,
                     cfg_judge_continuity := Some 0\<rparr>"

text \<open>A group chat \<open>g1\<close>, a message of user \<open>u1\<close> in it, and a state of that chat that was
  last reset on an earlier day.\<close>

definition hello_event :: event where
  "hello_event =
     \<lparr>unified_msg_origin = ascii ''g1'', sender_id = ascii ''u1'',
      message_str = ascii ''hello'', is_at_or_wake_command = False\<rparr>"

definition tired_state :: ChatState where
  "tired_state =
     \<lparr>energy = 0.5, last_reply_time = 100, last_reset_date = ascii ''2025-01-01'',
      total_messages = 7, total_replies = 3\<rparr>"

definition tired_plugin :: plugin where
  "tired_plugin =
     default_plugin\<lparr>judge_provider_name := ascii ''tiny'',
                     chat_states := [ascii ''g1'' \<mapsto> tired_state]\<rparr>"

section \<open>Vocabulary of the statements about the judgment\<close>

text \<open>A reply of the judge model that line 341 cannot decode: the call returned, and
  \<open>json.loads\<close> raised \<open>JSONDecodeError\<close> on the text left by lines 332-339.\<close>

definition malformed_reply :: "(pystr \<Rightarrow> json option) \<Rightarrow> pystr ext \<Rightarrow> bool" where
  "malformed_reply loads reply =
     (case reply of
        Raises x \<Rightarrow> False
      | Returns completion_text \<Rightarrow> loads (extract_json (strip completion_text)) = None)"

text \<open>What the attempt that ends the loop makes of its reply: the exception that escapes,
  or the result returned.\<close>

definition final_outcome ::
    "plugin \<Rightarrow> (pystr \<Rightarrow> json option) \<Rightarrow> pystr ext \<Rightarrow> exn + JudgeResult option" where
  "final_outcome p loads reply =
     (case reply of
        Raises x \<Rightarrow> Inl x
      | Returns completion_text \<Rightarrow>
          (case loads (extract_json (strip completion_text)) of
             Some judge_data \<Rightarrow>
               (case score_judge_data p judge_data of
                  Inl x \<Rightarrow> Inl x
                | Inr result \<Rightarrow> Inr (Some result))
           | None \<Rightarrow> Inr (Some (failure_result (RetriesExhausted (judge_max_retries p))))))"

text \<open>A reply to the summarisation request from which \<open>_summarize_system_prompt\<close> gets no
  summary: the call raised, or lines 178-195 fell back to the original prompt.\<close>

definition summary_failed :: "(pystr \<Rightarrow> json option) \<Rightarrow> pystr ext \<Rightarrow> bool" where
  "summary_failed loads reply =
     (case reply of
        Raises x \<Rightarrow> True
      | Returns completion_text \<Rightarrow> parse_summary loads (strip completion_text) = None)"


text \<open>A provider whose replies do not depend on the prompt: \<open>judge_replies attempt\<close> for
  the judge call of iteration \<open>attempt\<close>, \<open>summary_reply\<close> for the summarisation call.\<close>

definition example_provider :: "(nat \<Rightarrow> pystr ext) \<Rightarrow> pystr ext \<Rightarrow> provider" where
  "example_provider judge_replies summary_reply =
     \<lparr>judge_chat = (\<lambda>attempt prompt. judge_replies attempt),
      summary_chat = (\<lambda>original_prompt. summary_reply)\<rparr>"

text \<open>A reply that gives every dimension the score 10, and what \<open>json.loads\<close> makes of the
  texts that the examples use: this reply, the summary reply below, \<open>[]\<close> and \<open>{}\<close> are
  JSON; the other texts used (\<open>sorry\<close>) are not.\<close>

definition full_marks_text :: pystr where
  \<open>full_marks_text =
     ascii ''{"relevance": 10, "willingness": 10, "social": 10, "timing": 10, "continuity": 10}''\<close>

definition full_marks_items :: "(pystr \<times> json) list" where
  "full_marks_items =
     [(ascii ''relevance'', JNum 10), (ascii ''willingness'', JNum 10),
      (ascii ''social'', JNum 10), (ascii ''timing'', JNum 10),
      (ascii ''continuity'', JNum 10)]"

text \<open>A reply to the summarisation request, with a summary of 35 characters.\<close>

definition summary_text :: pystr where
  \<open>summary_text = ascii ''{"summarized_persona": "Momo: cheerful cat, brief and kind."}''\<close>

definition summary_items :: "(pystr \<times> json) list" where
  "summary_items =
     [(ascii ''summarized_persona'', JStr (ascii ''Momo: cheerful cat, brief and kind.''))]"

definition example_loads :: "pystr \<Rightarrow> json option" where
  "example_loads s =
     (if s = full_marks_text then Some (JObj full_marks_items)
      else if s = summary_text then Some (JObj summary_items)
      else if s = ascii ''[]'' then Some (JArr [])
      else if s = ascii ''{}'' then Some (JObj [])
      else None)"

text \<open>The surroundings of the examples: the day after the last reset of \<open>tired_state\<close>, one
  provider registered as \<open>tiny\<close>, no persona and no conversation.\<close>

definition example_env :: "provider \<Rightarrow> env" where
  "example_env pr =
     \<lparr>today = ascii ''2025-01-02'',
      get_provider_by_id =
        (\<lambda>name. if name = ascii ''tiny'' then Returns (Some pr) else Returns None),
      json_loads = example_loads,
      persona_prompt = [],
      curr_conversation_id = Returns None,
      conversation_persona_id = Returns None,
      judge_prompt_text = (\<lambda>persona. ascii ''judge'')\<rparr>"




text \<open>Providers of the examples: one whose every reply is the text \<open>sorry\<close>; one that says
  \<open>sorry\<close> twice and then sends the JSON array \<open>[]\<close>; one that says \<open>sorry\<close> once and then
  gives full marks; one whose call raises.\<close>

definition always_sorry :: provider where
  "always_sorry = example_provider (\<lambda>attempt. Returns (ascii ''sorry'')) (Returns (ascii ''sorry''))"






text \<open>A persona text of 60 characters, a conversation \<open>c1\<close> without a persona of its own, and
  a provider that answers the summarisation request.\<close>

definition long_persona :: pystr where
  "long_persona = ascii ''You are Momo, a cheerful cat who answers briefly and kindly.''"

definition persona_env :: "provider \<Rightarrow> env" where
  "persona_env pr =
     (example_env pr)\<lparr>persona_prompt := long_persona,
                       curr_conversation_id := Returns (Some (ascii ''c1'')),
                       conversation_persona_id := Returns None\<rparr>"

definition summarizing_provider :: provider where
  "summarizing_provider =
     example_provider (\<lambda>attempt. Returns full_marks_text) (Returns summary_text)"

text \<open>A second message of user \<open>u1\<close> in chat \<open>g1\<close>, and the two messages as
  \<open>_enter_silent_wait\<close> records them at the times 0 and 3.\<close>

definition again_event :: event where
  "again_event =
     \<lparr>unified_msg_origin = ascii ''g1'', sender_id = ascii ''u1'',
      message_str = ascii ''anyone?'', is_at_or_wake_command = False\<rparr>"

definition hello_message :: message_info where
  "hello_message = \<lparr>timestamp = 0, content = ascii ''hello'', msg_event = hello_event\<rparr>"

definition again_message :: message_info where
  "again_message = \<lparr>timestamp = 3, content = ascii ''anyone?'', msg_event = again_event\<rparr>"

text \<open>Two messages whose chat and sender both differ, but whose keys are the same text
  \<open>a_b_c\<close>: user \<open>c\<close> in chat \<open>a_b\<close>, and user \<open>b_c\<close> in chat \<open>a\<close>.\<close>

definition left_event :: event where
  "left_event =
     \<lparr>unified_msg_origin = ascii ''a_b'', sender_id = ascii ''c'',
      message_str = ascii ''left'', is_at_or_wake_command = False\<rparr>"

definition right_event :: event where
  "right_event =
     \<lparr>unified_msg_origin = ascii ''a'', sender_id = ascii ''b_c'',
      message_str = ascii ''right'', is_at_or_wake_command = False\<rparr>"

section \<open>Properties of the chat energy\<close>

lemma floor_energy:
  assumes "energy_valid e" and "0 \<le> d"
  shows "energy_valid (max 0.1 (e - d))"
  using assms unfolding energy_valid_def by arith

lemma cap_energy:
  assumes "energy_valid e" and "0 \<le> r"
  shows "energy_valid (min 1 (e + r))"
  using assms unfolding energy_valid_def by arith

lemma default_energy_valid: "energy_valid (energy ChatState_default)"
  by (simp add: energy_valid_def ChatState_default_def)

lemma get_chat_state_energy_in_range:
  assumes "energy_in_range p"
  shows "energy_valid (energy (fst (get_chat_state day c p)))"
    and "energy_in_range (snd (get_chat_state day c p))"
proof -
  let ?s0 = "case chat_states p c of None \<Rightarrow> ChatState_default | Some s \<Rightarrow> s"
  have s0: "energy_valid (energy ?s0)"
    using assms by (auto simp: energy_in_range_def default_energy_valid split: option.splits)
  have b: "energy_valid (min 1 (energy ?s0 + 0.2))"
    using cap_energy[OF s0, of "0.2"] by simp
  show v: "energy_valid (energy (fst (get_chat_state day c p)))"
    using s0 b by (simp add: get_chat_state_def Let_def)
  then show "energy_in_range (snd (get_chat_state day c p))"
    using assms
    by (auto simp: energy_in_range_def get_chat_state_def Let_def split: if_splits)
qed

lemma update_active_state_energy_in_range:
  assumes "0 \<le> energy_decay_rate p" and "energy_in_range p"
  shows "energy_in_range (update_active_state now day ev p)"
proof -
  obtain cs p1 where g: "get_chat_state day (unified_msg_origin ev) p = (cs, p1)"
    by (cases "get_chat_state day (unified_msg_origin ev) p")
  from get_chat_state_energy_in_range[OF assms(2), of day "unified_msg_origin ev"] g
  have "energy_in_range p1" and "energy_valid (energy cs)" by simp_all
  with floor_energy[of "energy cs" "energy_decay_rate p"] assms(1)
  have "energy_in_range p1" and "energy_valid (max 0.1 (energy cs - energy_decay_rate p))"
    by simp_all
  then show ?thesis
    by (auto simp: update_active_state_def g Let_def energy_in_range_def split: if_splits)
qed

lemma update_passive_state_energy_in_range:
  assumes "0 \<le> energy_recovery_rate p" and "energy_in_range p"
  shows "energy_in_range (update_passive_state day ev p)"
proof -
  obtain cs p1 where g: "get_chat_state day (unified_msg_origin ev) p = (cs, p1)"
    by (cases "get_chat_state day (unified_msg_origin ev) p")
  from get_chat_state_energy_in_range[OF assms(2), of day "unified_msg_origin ev"] g
  have "energy_in_range p1" and "energy_valid (energy cs)" by simp_all
  with cap_energy[of "energy cs" "energy_recovery_rate p"] assms(1)
  have "energy_in_range p1" and "energy_valid (min 1 (energy cs + energy_recovery_rate p))"
    by simp_all
  then show ?thesis
    by (auto simp: update_passive_state_def g Let_def energy_in_range_def split: if_splits)
qed

lemma state_call_run_rates:
  "energy_decay_rate (state_call_run p c) = energy_decay_rate p"
  "energy_recovery_rate (state_call_run p c) = energy_recovery_rate p"
  by (cases c; simp add: get_chat_state_def update_active_state_def update_passive_state_def
      Let_def split: prod.splits)+

lemma state_call_run_energy_in_range:
  assumes "0 \<le> energy_decay_rate p" and "0 \<le> energy_recovery_rate p"
    and "energy_in_range p"
  shows "energy_in_range (state_call_run p c)"
  using assms
  by (cases c)
    (simp_all add: get_chat_state_energy_in_range update_active_state_energy_in_range
      update_passive_state_energy_in_range)

lemma state_calls_run_energy_in_range:
  assumes "0 \<le> energy_decay_rate p" and "0 \<le> energy_recovery_rate p"
    and "energy_in_range p"
  shows "energy_in_range (state_calls_run p calls)"
  using assms unfolding state_calls_run_def
proof (induction calls arbitrary: p)
  case Nil
  then show ?case by simp
next
  case (Cons c calls)
  then show ?case by (simp add: state_call_run_energy_in_range state_call_run_rates)
qed

lemma update_active_state_energy:
  "\<exists>cs. chat_states (update_active_state now day ev p) (unified_msg_origin ev) = Some cs \<and>
        energy cs = max 0.1 (energy (fst (get_chat_state day (unified_msg_origin ev) p))
                             - energy_decay_rate p)"
  by (simp add: update_active_state_def get_chat_state_def Let_def)

lemma update_passive_state_energy:
  "\<exists>cs. chat_states (update_passive_state day ev p) (unified_msg_origin ev) = Some cs \<and>
        energy cs = min 1 (energy (fst (get_chat_state day (unified_msg_origin ev) p))
                           + energy_recovery_rate p)"
  by (simp add: update_passive_state_def get_chat_state_def Let_def)

lemma get_chat_state_energy:
  "energy (fst (get_chat_state day c p)) =
     (let s0 = (case chat_states p c of None \<Rightarrow> ChatState_default | Some s \<Rightarrow> s)
      in if last_reset_date s0 \<noteq> day then min 1 (energy s0 + 0.2) else energy s0)"
  by (simp add: get_chat_state_def Let_def)

text \<open>
  C5. With a decay rate and a recovery rate that are not negative, a plugin whose chat states
  all have their energy in \<open>[0.1, 1.0]\<close> (the plugin just constructed has none, and a state
  is created with energy 1.0) keeps that property through every finite sequence of calls
  of \<open>_get_chat_state\<close>, \<open>_update_active_state\<close> and \<open>_update_passive_state\<close>.
  \<open>_update_active_state\<close> leaves the chat with the energy that \<open>_get_chat_state\<close> returned
  minus the decay rate, floored at 0.1; \<open>_update_passive_state\<close> with that energy plus the
  recovery rate, capped at 1.0; and the daily bonus of \<open>_get_chat_state\<close> is 0.2, capped at
  1.0.
\<close>

theorem energy_stays_in_range:
  assumes "0 \<le> energy_decay_rate p" and "0 \<le> energy_recovery_rate p"
    and "energy_in_range p"
  shows "energy_in_range (state_calls_run p calls) \<and>
    (\<exists>cs. chat_states (update_active_state now day ev p) (unified_msg_origin ev) = Some cs \<and>
        energy cs = max 0.1 (energy (fst (get_chat_state day (unified_msg_origin ev) p))
                             - energy_decay_rate p)) \<and>
    (\<exists>cs. chat_states (update_passive_state day ev p) (unified_msg_origin ev) = Some cs \<and>
        energy cs = min 1 (energy (fst (get_chat_state day (unified_msg_origin ev) p))
                           + energy_recovery_rate p)) \<and>
    energy (fst (get_chat_state day chat_id p)) =
      (let s0 = (case chat_states p chat_id of None \<Rightarrow> ChatState_default | Some s \<Rightarrow> s)
       in if last_reset_date s0 \<noteq> day then min 1 (energy s0 + 0.2) else energy s0)"
  using state_calls_run_energy_in_range[OF assms] update_active_state_energy
    update_passive_state_energy get_chat_state_energy
  by blast

theorem energy_stays_in_range_witness:
  "0 \<le> energy_decay_rate tired_plugin \<and> 0 \<le> energy_recovery_rate tired_plugin \<and>
   energy_in_range tired_plugin \<and>
   energy_in_range (state_calls_run tired_plugin
     [UpdateActive 200 (ascii ''2025-01-02'') hello_event,
      UpdatePassive (ascii ''2025-01-02'') hello_event,
      GetChatState (ascii ''2025-01-03'') (ascii ''g1'')])"
proof -
  have d: "0 \<le> energy_decay_rate tired_plugin"
    by (simp add: tired_plugin_def default_plugin_def)
  have r: "0 \<le> energy_recovery_rate tired_plugin"
    by (simp add: tired_plugin_def default_plugin_def)
  have i: "energy_in_range tired_plugin"
    by (simp add: energy_in_range_def energy_valid_def tired_plugin_def default_plugin_def
        tired_state_def)
  show ?thesis
    using d r i energy_stays_in_range[OF d r i] by simp
qed

section \<open>Properties of the construction\<close>




text \<open>
  C2. Construction with the five raw weights all zero does not terminate normally: the sum is
  0, it differs from 1.0 by more than the epsilon, and the division by the sum raises
  \<open>ZeroDivisionError\<close> out of \<open>__init__\<close>.
\<close>

theorem init_zero_weights_raises: "init zero_weights_config = Inl ZeroDivisionError"
  by (simp add: init_def zero_weights_config_def default_config_def normalize_weights_def
      raw_weights_def weight_sum_def config_get_def)

section \<open>Properties of the retry loop\<close>



section \<open>Properties of the judgment method\<close>

lemma get_chat_state_keeps:
  "judge_provider_name (snd (get_chat_state d c p)) = judge_provider_name p"
  "reply_threshold (snd (get_chat_state d c p)) = reply_threshold p"
  "judge_include_reasoning (snd (get_chat_state d c p)) = judge_include_reasoning p"
  "judge_max_retries (snd (get_chat_state d c p)) = judge_max_retries p"
  "weights (snd (get_chat_state d c p)) = weights p"
  "system_prompt_cache (snd (get_chat_state d c p)) = system_prompt_cache p"
  "user_wait_states (snd (get_chat_state d c p)) = user_wait_states p"
  by (simp_all add: get_chat_state_def Let_def)
















lemma final_outcome_parsed:
  assumes "loads (extract_json (strip c)) = Some jd"
  shows "final_outcome p loads (Returns c) =
     (case score_judge_data p jd of Inl x \<Rightarrow> Inl x | Inr r \<Rightarrow> Inr (Some r))"
    and "\<not> malformed_reply loads (Returns c)"
  using assms by (simp_all add: malformed_reply_def final_outcome_def)


section \<open>Concrete runs of the judgment\<close>

lemma strip_sorry: "strip (ascii ''sorry'') = ascii ''sorry''"
  by (simp add: strip_def ascii_def is_space_def)

lemma extract_sorry: "extract_json (ascii ''sorry'') = ascii ''sorry''"
  by (simp add: extract_json_def ascii_def startswith_def)

lemma loads_sorry: "example_loads (extract_json (strip (ascii ''sorry''))) = None"
  unfolding strip_sorry extract_sorry
  by (simp add: example_loads_def full_marks_text_def summary_text_def ascii_def)





lemma tired_plugin_simps:
  "judge_provider_name tired_plugin = ascii ''tiny''"
  "judge_max_retries tired_plugin = 3"
  "reply_threshold tired_plugin = 0.6"
  "judge_include_reasoning tired_plugin = True"
  "weights tired_plugin = \<lparr>w_relevance = 0.25, w_willingness = 0.2, w_social = 0.2,
      w_timing = 0.15, w_continuity = 0.2\<rparr>"
  "chat_states tired_plugin = [ascii ''g1'' \<mapsto> tired_state]"
  by (simp_all add: tired_plugin_def default_plugin_def)

lemma tiny_nonempty: "ascii ''tiny'' \<noteq> []"
  by (simp add: ascii_def)










section \<open>The retry count\<close>






section \<open>Failures that are not retried\<close>









section \<open>The score of a parsed response\<close>














section \<open>Properties of the persona summary\<close>

lemma parse_summary_Some:
  "parse_summary loads stripped = Some s \<longleftrightarrow>
     (\<exists>items summary. loads (extract_json stripped) = Some (JObj items) \<and>
        dict_get items (ascii ''summarized_persona'') (JStr []) = JStr summary \<and>
        summary \<noteq> [] \<and> 10 < length (strip summary) \<and> s = strip summary)"
  by (auto simp: parse_summary_def split: option.splits json.splits)

lemma summarize_calls: "snd (summarize_system_prompt p e t) \<le> 1"
  by (simp add: summarize_system_prompt_def split: ext.splits option.splits)

text \<open>A reply to the summarisation request from which no summary comes: the call raised,
  or lines 178-195 fall back.\<close>

lemma summarize_failure:
  assumes "judge_provider_name p \<noteq> []"
    and "get_provider_by_id e (judge_provider_name p) = Returns (Some pr)"
    and "case summary_chat pr t of Raises x \<Rightarrow> True
         | Returns c \<Rightarrow> parse_summary (json_loads e) (strip c) = None"
  shows "summarize_system_prompt p e t = (t, 1)"
  using assms by (simp add: summarize_system_prompt_def split: ext.splits)

lemma summarize_success:
  assumes "judge_provider_name p \<noteq> []"
    and "get_provider_by_id e (judge_provider_name p) = Returns (Some pr)"
    and "summary_chat pr t = Returns c"
    and "parse_summary (json_loads e) (strip c) = Some s"
  shows "summarize_system_prompt p e t = (s, 1)"
  using assms by (simp add: summarize_system_prompt_def)

text \<open>A cache miss on a long persona text: the summariser runs and its answer is stored,
  whatever it is.\<close>

lemma get_or_create_miss:
  assumes "curr_conversation_id e = Returns (Some cid)" and "cid \<noteq> []"
    and "conversation_persona_id e = Returns conv"
    and "persona = (case conv of None \<Rightarrow> Some (ascii ''default'') | Some pid \<Rightarrow> pid)"
    and "\<forall>cached. system_prompt_cache p (cache_key_of cid persona) = Some cached \<longrightarrow>
           original cached \<noteq> t"
    and "t \<noteq> []" and "50 \<le> length (strip t)"
  shows "get_or_create_summarized_system_prompt p e t =
     (fst (summarize_system_prompt p e t),
      p\<lparr>system_prompt_cache := (system_prompt_cache p)(cache_key_of cid persona \<mapsto>
           \<lparr>original = t, summarized = fst (summarize_system_prompt p e t),
            persona_id = persona\<rparr>)\<rparr>,
      snd (summarize_system_prompt p e t))"
proof -
  have hit: "(case system_prompt_cache p (cache_key_of cid persona) of None \<Rightarrow> None
       | Some cached \<Rightarrow> if original cached = t then Some (summarized cached) else None) = None"
    using assms(5) by (auto split: option.splits)
  have long: "\<not> (t = [] \<or> length (strip t) < 50)" using assms(6,7) by simp
  show ?thesis
    unfolding get_or_create_summarized_system_prompt_def
    by (simp add: assms(1-3) assms(4)[symmetric] Let_def hit long split: prod.splits)
qed

text \<open>A cache hit: no call.\<close>

lemma get_or_create_hit:
  assumes "curr_conversation_id e = Returns (Some cid)" and "cid \<noteq> []"
    and "conversation_persona_id e = Returns conv"
    and "persona = (case conv of None \<Rightarrow> Some (ascii ''default'') | Some pid \<Rightarrow> pid)"
    and "system_prompt_cache p (cache_key_of cid persona) = Some cached"
    and "original cached = t"
  shows "get_or_create_summarized_system_prompt p e t = (summarized cached, p, 0)"
  unfolding get_or_create_summarized_system_prompt_def
  by (simp add: assms(1-3) assms(4)[symmetric] assms(5,6) Let_def)

lemma get_or_create_failure:
  assumes "curr_conversation_id e = Returns (Some cid)" and "cid \<noteq> []"
    and "conversation_persona_id e = Returns conv"
    and "persona = (case conv of None \<Rightarrow> Some (ascii ''default'') | Some pid \<Rightarrow> pid)"
    and "\<forall>cached. system_prompt_cache p (cache_key_of cid persona) = Some cached \<longrightarrow>
           original cached \<noteq> t"
    and "t \<noteq> []" and "50 \<le> length (strip t)"
    and "judge_provider_name p \<noteq> []"
    and "get_provider_by_id e (judge_provider_name p) = Returns (Some pr)"
    and "case summary_chat pr t of Raises x \<Rightarrow> True
         | Returns c \<Rightarrow> parse_summary (json_loads e) (strip c) = None"
  shows "get_or_create_summarized_system_prompt p e t =
     (t, p\<lparr>system_prompt_cache := (system_prompt_cache p)(cache_key_of cid persona \<mapsto>
           \<lparr>original = t, summarized = t, persona_id = persona\<rparr>)\<rparr>, 1)"
  unfolding get_or_create_miss[OF assms(1-7)] summarize_failure[OF assms(8-10)] by simp

text \<open>
  C9 (as amended). Take a conversation, a persona text of at least 50 characters for which
  the cache holds no entry with the same original text, and a provider that is found. The
  summariser makes at most one call. When no summary comes of it (the call raises, the text
  is undecodable or not an object, the summary is missing, not a string or of at most 10
  characters), \<open>_summarize_system_prompt\<close> returns the original text after that one call,
  \<open>_get_or_create_summarized_system_prompt\<close> returns the original text and stores the entry
  whose summary is the original text, so that the next request for the same text is a cache
  hit without a call, and the judge prompt is built from the original text. When a summary
  \<open>s\<close> comes of it, \<open>s\<close> is returned and stored.
\<close>

theorem summary_best_effort:
  assumes "curr_conversation_id e = Returns (Some cid)" and "cid \<noteq> []"
    and "conversation_persona_id e = Returns conv"
    and "persona = (case conv of None \<Rightarrow> Some (ascii ''default'') | Some pid \<Rightarrow> pid)"
    and "\<forall>cached. system_prompt_cache p (cache_key_of cid persona) = Some cached \<longrightarrow>
           original cached \<noteq> t"
    and "t \<noteq> []" and "50 \<le> length (strip t)"
    and "judge_provider_name p \<noteq> []"
    and "get_provider_by_id e (judge_provider_name p) = Returns (Some pr)"
    and "p_failed = p\<lparr>system_prompt_cache := (system_prompt_cache p)(cache_key_of cid persona \<mapsto>
           \<lparr>original = t, summarized = t, persona_id = persona\<rparr>)\<rparr>"
  shows "snd (summarize_system_prompt p e t) \<le> 1 \<and>
    (summary_failed (json_loads e) (summary_chat pr t) \<longrightarrow>
       summarize_system_prompt p e t = (t, 1) \<and>
       get_or_create_summarized_system_prompt p e t = (t, p_failed, 1) \<and>
       get_or_create_summarized_system_prompt p_failed e t = (t, p_failed, 0) \<and>
       (persona_prompt e = t \<longrightarrow>
          fst (prepare_judgment p e ev) = complete_judge_prompt t (judge_prompt_text e t))) \<and>
    (\<forall>c s. summary_chat pr t = Returns c \<and> parse_summary (json_loads e) (strip c) = Some s \<longrightarrow>
       summarize_system_prompt p e t = (s, 1) \<and>
       get_or_create_summarized_system_prompt p e t =
         (s, p\<lparr>system_prompt_cache := (system_prompt_cache p)(cache_key_of cid persona \<mapsto>
                 \<lparr>original = t, summarized = s, persona_id = persona\<rparr>)\<rparr>, 1)) \<and>
    (\<forall>loads stripped s. parse_summary loads stripped = Some s \<longleftrightarrow>
       (\<exists>items summary. loads (extract_json stripped) = Some (JObj items) \<and>
          dict_get items (ascii ''summarized_persona'') (JStr []) = JStr summary \<and>
          summary \<noteq> [] \<and> 10 < length (strip summary) \<and> s = strip summary))"
proof -
  have A: "summarize_system_prompt p e t = (t, 1) \<and>
       get_or_create_summarized_system_prompt p e t = (t, p_failed, 1) \<and>
       get_or_create_summarized_system_prompt p_failed e t = (t, p_failed, 0) \<and>
       (persona_prompt e = t \<longrightarrow>
          fst (prepare_judgment p e ev) = complete_judge_prompt t (judge_prompt_text e t))"
    if f: "summary_failed (json_loads e) (summary_chat pr t)"
  proof -
    from f have f': "case summary_chat pr t of Raises x \<Rightarrow> True
         | Returns c \<Rightarrow> parse_summary (json_loads e) (strip c) = None"
      by (simp add: summary_failed_def)
    have a1: "summarize_system_prompt p e t = (t, 1)"
      by (rule summarize_failure[OF assms(8,9) f'])
    have a2: "get_or_create_summarized_system_prompt p e t = (t, p_failed, 1)"
      unfolding assms(10) by (rule get_or_create_failure[OF assms(1-9) f'])
    have c: "system_prompt_cache p_failed (cache_key_of cid persona) =
        Some \<lparr>original = t, summarized = t, persona_id = persona\<rparr>"
      by (simp add: assms(10))
    have a3: "get_or_create_summarized_system_prompt p_failed e t = (t, p_failed, 0)"
      using get_or_create_hit[OF assms(1-4) c] by simp
    have a4: "fst (prepare_judgment p e ev) = complete_judge_prompt t (judge_prompt_text e t)"
      if pt: "persona_prompt e = t"
    proof -
      obtain cs1 p1 where a: "get_chat_state (today e) (unified_msg_origin ev) p = (cs1, p1)"
        by (cases "get_chat_state (today e) (unified_msg_origin ev) p")
      then have p1: "p1 = snd (get_chat_state (today e) (unified_msg_origin ev) p)" by simp
      have m1: "\<forall>cached. system_prompt_cache p1 (cache_key_of cid persona) = Some cached \<longrightarrow>
           original cached \<noteq> t"
        using assms(5) by (simp add: p1 get_chat_state_keeps)
      have n1: "judge_provider_name p1 \<noteq> []"
        using assms(8) by (simp add: p1 get_chat_state_keeps)
      have g1: "get_provider_by_id e (judge_provider_name p1) = Returns (Some pr)"
        using assms(9) by (simp add: p1 get_chat_state_keeps)
      note F = get_or_create_failure[OF assms(1-4) m1 assms(6,7) n1 g1 f']
      show ?thesis
        by (simp add: prepare_judgment_def a pt F Let_def split: prod.splits)
    qed
    from a1 a2 a3 a4 show ?thesis by blast
  qed
  have B: "summarize_system_prompt p e t = (s, 1) \<and>
       get_or_create_summarized_system_prompt p e t =
         (s, p\<lparr>system_prompt_cache := (system_prompt_cache p)(cache_key_of cid persona \<mapsto>
                 \<lparr>original = t, summarized = s, persona_id = persona\<rparr>)\<rparr>, 1)"
    if "summary_chat pr t = Returns c" and "parse_summary (json_loads e) (strip c) = Some s"
    for c s
    unfolding get_or_create_miss[OF assms(1-7)] summarize_success[OF assms(8,9) that] by simp
  from summarize_calls[of p e t] A B parse_summary_Some show ?thesis by blast
qed


lemma persona_env_simps:
  "curr_conversation_id (persona_env pr) = Returns (Some (ascii ''c1''))"
  "conversation_persona_id (persona_env pr) = Returns None"
  "persona_prompt (persona_env pr) = long_persona"
  "json_loads (persona_env pr) = example_loads"
  "get_provider_by_id (persona_env pr) (ascii ''tiny'') = Returns (Some pr)"
  by (simp_all add: persona_env_def example_env_def)

lemma long_persona_long: "long_persona \<noteq> []" "50 \<le> length (strip long_persona)"
  by (simp_all add: long_persona_def strip_def ascii_def is_space_def)

lemma c1_default_key:
  "cache_key_of (ascii ''c1'') (Some (ascii ''default'')) = ascii ''c1_default''"
  "ascii ''c1'' \<noteq> []"
  by (simp_all add: cache_key_of_def ascii_def)

lemma sorry_summary_failed: "summary_failed example_loads (summary_chat always_sorry t)"
  by (simp add: summary_failed_def always_sorry_def example_provider_def parse_summary_def
      loads_sorry)

lemma summary_text_parsed:
  "parse_summary example_loads (strip summary_text) =
     Some (ascii ''Momo: cheerful cat, brief and kind.'')"
proof -
  have "strip summary_text = summary_text"
    by (simp add: strip_def summary_text_def ascii_def is_space_def)
  moreover have "extract_json summary_text = summary_text"
    by (simp add: extract_json_def summary_text_def ascii_def startswith_def)
  moreover have "example_loads summary_text = Some (JObj summary_items)"
    by (simp add: example_loads_def summary_text_def full_marks_text_def ascii_def)
  moreover have "strip (ascii ''Momo: cheerful cat, brief and kind.'') =
      ascii ''Momo: cheerful cat, brief and kind.''"
    by (simp add: strip_def ascii_def is_space_def)
  ultimately show ?thesis
    by (simp add: parse_summary_def summary_items_def dict_get_def) (simp add: ascii_def)
qed

lemma tired_cache_empty: "system_prompt_cache tired_plugin = Map.empty"
  by (simp add: tired_plugin_def default_plugin_def)

text \<open>
  C9 as stated fails on the cache. The summariser's reply \<open>sorry\<close> is undecodable, so the
  original persona text comes back; all the same the entry for the conversation is written,
  with the original text in the place of the summary.
\<close>

theorem failed_summary_is_cached:
  "summary_failed (json_loads (persona_env always_sorry))
     (summary_chat always_sorry long_persona) \<and>
   system_prompt_cache tired_plugin (ascii ''c1_default'') = None \<and>
   fst (get_or_create_summarized_system_prompt tired_plugin (persona_env always_sorry)
     long_persona) = long_persona \<and>
   system_prompt_cache
     (fst (snd (get_or_create_summarized_system_prompt tired_plugin (persona_env always_sorry)
        long_persona))) (ascii ''c1_default'') =
     Some \<lparr>original = long_persona, summarized = long_persona,
           persona_id = Some (ascii ''default'')\<rparr>"
proof -
  let ?e = "persona_env always_sorry"
  have f: "case summary_chat always_sorry long_persona of Raises x \<Rightarrow> True
         | Returns c \<Rightarrow> parse_summary (json_loads ?e) (strip c) = None"
    using sorry_summary_failed[of long_persona]
    unfolding summary_failed_def persona_env_simps by simp
  have m: "\<forall>cached. system_prompt_cache tired_plugin
      (cache_key_of (ascii ''c1'') (Some (ascii ''default''))) = Some cached \<longrightarrow>
        original cached \<noteq> long_persona"
    by (simp add: tired_cache_empty)
  have n: "judge_provider_name tired_plugin \<noteq> []"
    by (simp add: tired_plugin_simps tiny_nonempty)
  have g: "get_provider_by_id ?e (judge_provider_name tired_plugin) = Returns (Some always_sorry)"
    by (simp add: tired_plugin_simps persona_env_simps)
  have p: "Some (ascii ''default'') =
      (case None of None \<Rightarrow> Some (ascii ''default'') | Some pid \<Rightarrow> pid)" by simp
  note F = get_or_create_failure[OF persona_env_simps(1) c1_default_key(2) persona_env_simps(2)
      p m long_persona_long n g f]
  show ?thesis
    unfolding F
    by (simp add: sorry_summary_failed persona_env_simps tired_cache_empty c1_default_key(1))
qed

text \<open>The two outcomes at work, for the conversation \<open>c1\<close> and the 60 characters of
  \<open>long_persona\<close>: a reply that cannot be decoded, and a reply with a summary.\<close>

theorem summary_best_effort_witness:
  "curr_conversation_id (persona_env always_sorry) = Returns (Some (ascii ''c1'')) \<and>
   ascii ''c1'' \<noteq> [] \<and>
   conversation_persona_id (persona_env always_sorry) = Returns None \<and>
   system_prompt_cache tired_plugin (ascii ''c1_default'') = None \<and>
   long_persona \<noteq> [] \<and> 50 \<le> length (strip long_persona) \<and>
   judge_provider_name tired_plugin \<noteq> [] \<and>
   get_provider_by_id (persona_env always_sorry) (judge_provider_name tired_plugin) =
     Returns (Some always_sorry) \<and>
   summary_failed (json_loads (persona_env always_sorry))
     (summary_chat always_sorry long_persona) \<and>
   summarize_system_prompt tired_plugin (persona_env always_sorry) long_persona =
     (long_persona, 1) \<and>
   fst (prepare_judgment tired_plugin (persona_env always_sorry) hello_event) =
     complete_judge_prompt long_persona (ascii ''judge'') \<and>
   summary_chat summarizing_provider long_persona = Returns summary_text \<and>
   parse_summary (json_loads (persona_env summarizing_provider)) (strip summary_text) =
     Some (ascii ''Momo: cheerful cat, brief and kind.'') \<and>
   summarize_system_prompt tired_plugin (persona_env summarizing_provider) long_persona =
     (ascii ''Momo: cheerful cat, brief and kind.'', 1)"
proof -
  let ?e = "persona_env always_sorry" and ?e2 = "persona_env summarizing_provider"
  let ?persona = "Some (ascii ''default'')"
  have p: "?persona = (case None of None \<Rightarrow> Some (ascii ''default'') | Some pid \<Rightarrow> pid)"
    by simp
  have k: "system_prompt_cache tired_plugin (ascii ''c1_default'') = None"
    by (simp add: tired_cache_empty)
  have m: "\<forall>cached. system_prompt_cache tired_plugin (cache_key_of (ascii ''c1'') ?persona) =
      Some cached \<longrightarrow> original cached \<noteq> long_persona"
    by (simp add: tired_cache_empty)
  have n: "judge_provider_name tired_plugin \<noteq> []"
    by (simp add: tired_plugin_simps tiny_nonempty)
  have g: "get_provider_by_id ?e (judge_provider_name tired_plugin) = Returns (Some always_sorry)"
    by (simp add: tired_plugin_simps persona_env_simps)
  have g2: "get_provider_by_id ?e2 (judge_provider_name tired_plugin) =
      Returns (Some summarizing_provider)"
    by (simp add: tired_plugin_simps persona_env_simps)
  have f: "summary_failed (json_loads ?e) (summary_chat always_sorry long_persona)"
    by (simp add: persona_env_simps sorry_summary_failed)
  have pp: "persona_prompt ?e = long_persona" by (simp add: persona_env_simps)
  have jp: "judge_prompt_text ?e long_persona = ascii ''judge''"
    by (simp add: persona_env_def example_env_def)
  note T1 = summary_best_effort[OF persona_env_simps(1) c1_default_key(2) persona_env_simps(2)
      p m long_persona_long n g refl, of hello_event]
  from T1 f pp have A: "summarize_system_prompt tired_plugin ?e long_persona = (long_persona, 1)"
    "fst (prepare_judgment tired_plugin ?e hello_event) =
       complete_judge_prompt long_persona (judge_prompt_text ?e long_persona)"
    by blast+
  have c: "summary_chat summarizing_provider long_persona = Returns summary_text"
    by (simp add: summarizing_provider_def example_provider_def)
  have ps: "parse_summary (json_loads ?e2) (strip summary_text) =
      Some (ascii ''Momo: cheerful cat, brief and kind.'')"
    by (simp add: persona_env_simps summary_text_parsed)
  note T2 = summary_best_effort[OF persona_env_simps(1) c1_default_key(2) persona_env_simps(2)
      p m long_persona_long n g2 refl, of hello_event]
  from T2 c ps have B: "summarize_system_prompt tired_plugin ?e2 long_persona =
      (ascii ''Momo: cheerful cat, brief and kind.'', 1)"
    by blast
  show ?thesis
    using persona_env_simps(1,2)[of always_sorry] c1_default_key(2) k long_persona_long n g f
      A(1) A(2)[unfolded jp] c ps B
    by (simp only: simp_thms)
qed

section \<open>Properties of the debounce\<close>

lemma cancel_timer_length [simp]: "length (cancel_timer ts h) = length ts"
  by (simp add: cancel_timer_def task_cancel_def split: option.splits)

lemma cancel_timer_key:
  "i < length ts \<Longrightarrow> task_key (cancel_timer ts h ! i) = task_key (ts ! i)"
  by (simp add: cancel_timer_def task_cancel_def nth_list_update split: option.splits)

lemma cancel_timer_status:
  "i < length ts \<Longrightarrow> task_status (cancel_timer ts h ! i) =
     (if h = Some i \<and> task_status (ts ! i) \<noteq> Finished then CancelRequested
      else task_status (ts ! i))"
  by (auto simp: cancel_timer_def task_cancel_def task_done_def nth_list_update
      split: option.splits)

text \<open>The parts of the system after \<open>_enter_silent_wait\<close>.\<close>

lemma enter_silent_wait_queue [simp]:
  "event_queue (enter_silent_wait ct ev s) = event_queue s"
  by (simp add: enter_silent_wait_def Let_def split: option.splits)

lemma enter_silent_wait_duration [simp]:
  "silent_wait_duration (the_plugin (enter_silent_wait ct ev s)) =
     silent_wait_duration (the_plugin s)"
  by (simp add: enter_silent_wait_def Let_def split: option.splits)

lemma enter_silent_wait_tasks:
  "tasks (enter_silent_wait ct ev s) =
     cancel_timer (tasks s)
       (case user_wait_states (the_plugin s)
               (user_key_of (unified_msg_origin ev) (sender_id ev)) of
          None \<Rightarrow> None | Some ws \<Rightarrow> timer_task ws) @
     [\<lparr>task_key = user_key_of (unified_msg_origin ev) (sender_id ev),
       task_status = Sleeping (ct + silent_wait_duration (the_plugin s))\<rparr>]"
  by (simp add: enter_silent_wait_def cancel_timer_def Let_def split: option.splits)

lemma enter_silent_wait_entry:
  "\<exists>ws'. user_wait_states (the_plugin (enter_silent_wait ct ev s)) =
       (user_wait_states (the_plugin s))
         (user_key_of (unified_msg_origin ev) (sender_id ev) \<mapsto> ws') \<and>
     timer_task ws' = Some (length (tasks s)) \<and> waiting_since ws' = ct \<and>
     accumulated_messages ws' =
       (case user_wait_states (the_plugin s)
               (user_key_of (unified_msg_origin ev) (sender_id ev)) of
          None \<Rightarrow> [] | Some ws \<Rightarrow> accumulated_messages ws) @
       [\<lparr>timestamp = ct, content = message_str ev, msg_event = ev\<rparr>]"
proof (cases "user_wait_states (the_plugin s)
    (user_key_of (unified_msg_origin ev) (sender_id ev))")
  case None
  show ?thesis
    by (rule exI[where x = "\<lparr>user_id = sender_id ev, start_time = ct,
          accumulated_messages = [\<lparr>timestamp = ct, content = message_str ev, msg_event = ev\<rparr>],
          timer_task = Some (length (tasks s)), waiting_since = ct\<rparr>"])
      (simp add: enter_silent_wait_def Let_def None)
next
  case (Some ws)
  show ?thesis
    by (rule exI[where x = "ws\<lparr>accumulated_messages := accumulated_messages ws @
            [\<lparr>timestamp = ct, content = message_str ev, msg_event = ev\<rparr>],
          waiting_since := ct, timer_task := Some (length (tasks s))\<rparr>"])
      (simp add: enter_silent_wait_def Let_def Some)
qed

lemma enter_silent_wait_timers:
  assumes "timers_consistent s"
  shows "timers_consistent (enter_silent_wait ct ev s)"
  unfolding timers_consistent_def
proof (intro allI impI)
  let ?s' = "enter_silent_wait ct ev s"
  let ?k = "user_key_of (unified_msg_origin ev) (sender_id ev)"
  let ?h = "case user_wait_states (the_plugin s) ?k of None \<Rightarrow> None | Some ws \<Rightarrow> timer_task ws"
  fix t d
  assume t: "t < length (tasks ?s')" and st: "task_status (tasks ?s' ! t) = Sleeping d"
  obtain ws' where ws': "user_wait_states (the_plugin ?s') =
       (user_wait_states (the_plugin s))(?k \<mapsto> ws')"
    "timer_task ws' = Some (length (tasks s))" "waiting_since ws' = ct"
    "accumulated_messages ws' =
       (case user_wait_states (the_plugin s) ?k of
          None \<Rightarrow> [] | Some ws \<Rightarrow> accumulated_messages ws) @
       [\<lparr>timestamp = ct, content = message_str ev, msg_event = ev\<rparr>]"
    using enter_silent_wait_entry[of ct ev s] by blast
  show "\<exists>ws. user_wait_states (the_plugin ?s') (task_key (tasks ?s' ! t)) = Some ws \<and>
              timer_task ws = Some t \<and> accumulated_messages ws \<noteq> [] \<and>
              timestamp (last (accumulated_messages ws)) = waiting_since ws \<and>
              d = waiting_since ws + silent_wait_duration (the_plugin ?s')"
  proof (cases "t < length (tasks s)")
    case False
    with t have tl: "t = length (tasks s)" by (simp add: enter_silent_wait_tasks)
    then have "tasks ?s' ! t = \<lparr>task_key = ?k,
        task_status = Sleeping (ct + silent_wait_duration (the_plugin s))\<rparr>"
      by (simp add: enter_silent_wait_tasks nth_append)
    with st ws' tl show ?thesis by simp
  next
    case True
    then have nt: "tasks ?s' ! t = cancel_timer (tasks s) ?h ! t"
      by (simp add: enter_silent_wait_tasks nth_append)
    from st have old: "task_status (tasks s ! t) = Sleeping d" and nh: "?h \<noteq> Some t"
      unfolding nt cancel_timer_status[OF True] by (auto split: if_splits)
    have key: "task_key (tasks ?s' ! t) = task_key (tasks s ! t)"
      unfolding nt by (rule cancel_timer_key[OF True])
    from assms True old obtain ws where
      ws: "user_wait_states (the_plugin s) (task_key (tasks s ! t)) = Some ws"
      "timer_task ws = Some t" "accumulated_messages ws \<noteq> []"
      "timestamp (last (accumulated_messages ws)) = waiting_since ws"
      "d = waiting_since ws + silent_wait_duration (the_plugin s)"
      unfolding timers_consistent_def by blast
    have "task_key (tasks s ! t) \<noteq> ?k"
    proof
      assume "task_key (tasks s ! t) = ?k"
      with ws(1,2) have "?h = Some t" by simp
      with nh show False by simp
    qed
    with ws show ?thesis by (simp add: key ws'(1))
  qed
qed


lemma enter_silent_wait_one_unit:
  assumes "one_unit_per_timer s"
  shows "one_unit_per_timer (enter_silent_wait ct ev s)"
proof -
  have "by_task h < length (tasks (enter_silent_wait ct ev s)) \<and>
        task_status (tasks (enter_silent_wait ct ev s) ! by_task h) = Finished"
    if h: "by_task h < length (tasks s)" "task_status (tasks s ! by_task h) = Finished" for h
    using h by (simp add: enter_silent_wait_tasks nth_append cancel_timer_status)
  with assms show ?thesis
    unfolding one_unit_per_timer_def by auto
qed

lemma enter_silent_wait_keys:
  assumes "keys_respected s"
  shows "keys_respected (enter_silent_wait ct ev s)"
proof -
  let ?s' = "enter_silent_wait ct ev s"
  let ?k = "user_key_of (unified_msg_origin ev) (sender_id ev)"
  obtain ws' where ws': "user_wait_states (the_plugin ?s') =
       (user_wait_states (the_plugin s))(?k \<mapsto> ws')"
    "accumulated_messages ws' =
       (case user_wait_states (the_plugin s) ?k of
          None \<Rightarrow> [] | Some ws \<Rightarrow> accumulated_messages ws) @
       [\<lparr>timestamp = ct, content = message_str ev, msg_event = ev\<rparr>]"
    using enter_silent_wait_entry[of ct ev s] by blast
  have old: "message_key m = k"
    if "user_wait_states (the_plugin s) k = Some ws" "m \<in> set (accumulated_messages ws)"
    for k ws m
    using assms that unfolding keys_respected_def by blast
  have "message_key m = k"
    if a: "user_wait_states (the_plugin ?s') k = Some ws" "m \<in> set (accumulated_messages ws)"
    for k ws m
  proof (cases "k = ?k")
    case True
    with a(1) have "ws = ws'" by (simp add: ws'(1))
    with a(2) ws'(2) True old[of ?k] show ?thesis
      by (auto simp: message_key_def split: option.splits)
  next
    case False
    with a show ?thesis by (simp add: ws'(1) old)
  qed
  with assms show ?thesis unfolding keys_respected_def by simp
qed

lemma enter_silent_wait_queue_properties:
  assumes "quiet_respected s" and "units_merged s"
  shows "quiet_respected (enter_silent_wait ct ev s)" and "units_merged (enter_silent_wait ct ev s)"
  using assms unfolding quiet_respected_def units_merged_def by simp_all

text \<open>The parts of the system after the \<open>finally\<close> block and after the end of the task.\<close>

lemma cleanup_wait_state_parts [simp]:
  "tasks (cleanup_wait_state k s) = tasks s"
  "event_queue (cleanup_wait_state k s) = event_queue s"
  "silent_wait_duration (the_plugin (cleanup_wait_state k s)) = silent_wait_duration (the_plugin s)"
  "chat_states (the_plugin (cleanup_wait_state k s)) = chat_states (the_plugin s)"
  by (simp_all add: cleanup_wait_state_def Let_def split: option.splits)

lemma cleanup_wait_state_other:
  "k' \<noteq> k \<Longrightarrow> user_wait_states (the_plugin (cleanup_wait_state k s)) k' =
     user_wait_states (the_plugin s) k'"
  by (simp add: cleanup_wait_state_def Let_def split: option.splits)

lemma cleanup_wait_state_own:
  "user_wait_states (the_plugin (cleanup_wait_state k s)) k =
     (case user_wait_states (the_plugin s) k of
        None \<Rightarrow> None
      | Some ws \<Rightarrow> (case timer_task ws of
                     None \<Rightarrow> Some ws
                   | Some t \<Rightarrow> if task_done (tasks s) t then None else Some ws))"
  by (simp add: cleanup_wait_state_def Let_def split: option.splits)

lemma finish_task_parts [simp]:
  "the_plugin (finish_task t s) = the_plugin s"
  "event_queue (finish_task t s) = event_queue s"
  "length (tasks (finish_task t s)) = length (tasks s)"
  by (simp_all add: finish_task_def)

lemma finish_task_nth:
  "i < length (tasks s) \<Longrightarrow> task_key (tasks (finish_task t s) ! i) = task_key (tasks s ! i)"
  "i < length (tasks s) \<Longrightarrow> task_status (tasks (finish_task t s) ! i) =
     (if i = t then Finished else task_status (tasks s ! i))"
  by (cases "t < length (tasks s)"; simp add: finish_task_def nth_list_update)+

text \<open>The parts of the system after lines 671-704.\<close>

lemma update_active_state_keeps [simp]:
  "user_wait_states (update_active_state now day ev p) = user_wait_states p"
  "silent_wait_duration (update_active_state now day ev p) = silent_wait_duration p"
  by (simp_all add: update_active_state_def get_chat_state_def Let_def)

lemma merge_and_reply_parts [simp]:
  "tasks (merge_and_reply now day ok t k s) = tasks s"
  "silent_wait_duration (the_plugin (merge_and_reply now day ok t k s)) =
     silent_wait_duration (the_plugin s)"
  by (simp_all add: merge_and_reply_def combine_user_messages_def Let_def
      split: option.splits list.splits)

lemma merge_and_reply_other:
  "k' \<noteq> k \<Longrightarrow> user_wait_states (the_plugin (merge_and_reply now day ok t k s)) k' =
     user_wait_states (the_plugin s) k'"
  by (simp add: merge_and_reply_def combine_user_messages_def Let_def
      split: option.splits list.splits)

text \<open>A timer that fires for an entry with messages whose quiet time is over.\<close>

lemma merge_and_reply_fires:
  assumes "user_wait_states (the_plugin s) k = Some ws"
    and "accumulated_messages ws \<noteq> []"
    and "\<not> now - waiting_since ws < silent_wait_duration (the_plugin s) - 0.1"
  shows "event_queue (merge_and_reply now day ok t k s) =
     (if ok then event_queue s @
        [\<lparr>unit_event = (msg_event (hd (accumulated_messages ws)))
             \<lparr>message_str := join_lines (map content (accumulated_messages ws)),
              is_at_or_wake_command := True\<rparr>,
          handed_at = now, by_task = t, merged = accumulated_messages ws\<rparr>]
      else event_queue s)"
    and "user_wait_states (the_plugin (merge_and_reply now day ok t k s)) k =
     Some (ws\<lparr>accumulated_messages :=
       (if ok then []
        else (hd (accumulated_messages ws))
               \<lparr>msg_event := (msg_event (hd (accumulated_messages ws)))
                  \<lparr>message_str := join_lines (map content (accumulated_messages ws)),
                   is_at_or_wake_command := True\<rparr>\<rparr> # tl (accumulated_messages ws))\<rparr>)"
    and "chat_states (the_plugin (merge_and_reply now day ok t k s)) =
     chat_states (update_active_state now day
       ((msg_event (hd (accumulated_messages ws)))
             \<lparr>message_str := join_lines (map content (accumulated_messages ws)),
              is_at_or_wake_command := True\<rparr>) (the_plugin s))"
proof -
  from assms(2) obtain m ms where ms: "accumulated_messages ws = m # ms"
    by (cases "accumulated_messages ws") auto
  show "event_queue (merge_and_reply now day ok t k s) =
     (if ok then event_queue s @
        [\<lparr>unit_event = (msg_event (hd (accumulated_messages ws)))
             \<lparr>message_str := join_lines (map content (accumulated_messages ws)),
              is_at_or_wake_command := True\<rparr>,
          handed_at = now, by_task = t, merged = accumulated_messages ws\<rparr>]
      else event_queue s)"
    using assms(1,3)
    by (simp add: merge_and_reply_def combine_user_messages_def Let_def ms)
  show "user_wait_states (the_plugin (merge_and_reply now day ok t k s)) k =
     Some (ws\<lparr>accumulated_messages :=
       (if ok then []
        else (hd (accumulated_messages ws))
               \<lparr>msg_event := (msg_event (hd (accumulated_messages ws)))
                  \<lparr>message_str := join_lines (map content (accumulated_messages ws)),
                   is_at_or_wake_command := True\<rparr>\<rparr> # tl (accumulated_messages ws))\<rparr>)"
    using assms(1,3)
    by (simp add: merge_and_reply_def combine_user_messages_def Let_def ms)
  show "chat_states (the_plugin (merge_and_reply now day ok t k s)) =
     chat_states (update_active_state now day
       ((msg_event (hd (accumulated_messages ws)))
             \<lparr>message_str := join_lines (map content (accumulated_messages ws)),
              is_at_or_wake_command := True\<rparr>) (the_plugin s))"
    using assms(1,3)
    by (simp add: merge_and_reply_def combine_user_messages_def Let_def ms)
qed


text \<open>The two ways in which the loop resumes a timer.\<close>

lemma wait_and_reply_cases:
  assumes "wait_and_reply now day ok t s = Some s'"
  obtains (cancelled) "t < length (tasks s)" and "task_status (tasks s ! t) = CancelRequested"
      and "s' = finish_task t (cleanup_wait_state (task_key (tasks s ! t)) s)"
    | (fired) d where "t < length (tasks s)" and "task_status (tasks s ! t) = Sleeping d"
      and "d \<le> now"
      and "s' = finish_task t (cleanup_wait_state (task_key (tasks s ! t))
                  (merge_and_reply now day ok t (task_key (tasks s ! t)) s))"
  using assms
  by (auto simp: wait_and_reply_def Let_def split: if_splits task_status.splits)

text \<open>What a firing timer finds, and what it leaves.\<close>

lemma fired_timer:
  assumes "timers_consistent s" and "t < length (tasks s)"
    and "task_status (tasks s ! t) = Sleeping d" and "d \<le> now"
    and "s1 = merge_and_reply now day ok t (task_key (tasks s ! t)) s"
    and "s' = finish_task t (cleanup_wait_state (task_key (tasks s ! t)) s1)"
  obtains ws where "user_wait_states (the_plugin s) (task_key (tasks s ! t)) = Some ws"
    and "timer_task ws = Some t" and "accumulated_messages ws \<noteq> []"
    and "timestamp (last (accumulated_messages ws)) + silent_wait_duration (the_plugin s) \<le> now"
    and "event_queue s' =
     (if ok then event_queue s @
        [\<lparr>unit_event = (msg_event (hd (accumulated_messages ws)))
             \<lparr>message_str := join_lines (map content (accumulated_messages ws)),
              is_at_or_wake_command := True\<rparr>,
          handed_at = now, by_task = t, merged = accumulated_messages ws\<rparr>]
      else event_queue s)"
    and "user_wait_states (the_plugin s') (task_key (tasks s ! t)) =
     Some (ws\<lparr>accumulated_messages :=
       (if ok then []
        else (hd (accumulated_messages ws))
               \<lparr>msg_event := (msg_event (hd (accumulated_messages ws)))
                  \<lparr>message_str := join_lines (map content (accumulated_messages ws)),
                   is_at_or_wake_command := True\<rparr>\<rparr> # tl (accumulated_messages ws))\<rparr>)"
proof -
  let ?k = "task_key (tasks s ! t)"
  from assms(1-3) obtain ws where
    ws: "user_wait_states (the_plugin s) ?k = Some ws" "timer_task ws = Some t"
      "accumulated_messages ws \<noteq> []"
      "timestamp (last (accumulated_messages ws)) = waiting_since ws"
      "d = waiting_since ws + silent_wait_duration (the_plugin s)"
    unfolding timers_consistent_def by blast
  from ws(5) assms(4)
  have chk: "\<not> now - waiting_since ws < silent_wait_duration (the_plugin s) - 0.1" by simp
  note F = merge_and_reply_fires[OF ws(1,3) chk, of day ok t]
  have q: "timestamp (last (accumulated_messages ws)) + silent_wait_duration (the_plugin s) \<le> now"
    using ws(4,5) assms(4) by simp
  have nd: "\<not> task_done (tasks s1) t"
    using assms(3) by (simp add: assms(5) task_done_def)
  have e: "user_wait_states (the_plugin s') ?k =
      user_wait_states (the_plugin s1) ?k"
    unfolding assms(6) using nd ws(2)
    by (simp add: cleanup_wait_state_own assms(5) F(2))
  have e1: "event_queue s' = event_queue s1" by (simp add: assms(6))
  show thesis
  proof (rule that[OF ws(1-3) q])
    show "event_queue s' =
     (if ok then event_queue s @
        [\<lparr>unit_event = (msg_event (hd (accumulated_messages ws)))
             \<lparr>message_str := join_lines (map content (accumulated_messages ws)),
              is_at_or_wake_command := True\<rparr>,
          handed_at = now, by_task = t, merged = accumulated_messages ws\<rparr>]
      else event_queue s)"
      using e1 F(1) by (simp only: assms(5))
    show "user_wait_states (the_plugin s') ?k =
     Some (ws\<lparr>accumulated_messages :=
       (if ok then []
        else (hd (accumulated_messages ws))
               \<lparr>msg_event := (msg_event (hd (accumulated_messages ws)))
                  \<lparr>message_str := join_lines (map content (accumulated_messages ws)),
                   is_at_or_wake_command := True\<rparr>\<rparr> # tl (accumulated_messages ws))\<rparr>)"
      using e F(2) by (simp only: assms(5))
  qed
qed

lemma wait_and_reply_tasks:
  assumes "wait_and_reply now day ok t s = Some s'"
  shows "length (tasks s') = length (tasks s)"
    and "t < length (tasks s)" and "task_status (tasks s ! t) \<noteq> Finished"
    and "\<And>i. i < length (tasks s) \<Longrightarrow> task_key (tasks s' ! i) = task_key (tasks s ! i)"
    and "\<And>i. i < length (tasks s) \<Longrightarrow> task_status (tasks s' ! i) =
           (if i = t then Finished else task_status (tasks s ! i))"
    and "silent_wait_duration (the_plugin s') = silent_wait_duration (the_plugin s)"
    and "\<And>k. k \<noteq> task_key (tasks s ! t) \<Longrightarrow>
           user_wait_states (the_plugin s') k = user_wait_states (the_plugin s) k"
  using assms
  by (cases rule: wait_and_reply_cases;
      simp add: finish_task_nth cleanup_wait_state_other merge_and_reply_other)+

lemma wait_and_reply_timers:
  assumes "timers_consistent s" and "wait_and_reply now day ok t s = Some s'"
  shows "timers_consistent s'"
  unfolding timers_consistent_def
proof (intro allI impI)
  note T = wait_and_reply_tasks[OF assms(2)]
  let ?k = "task_key (tasks s ! t)"
  fix t' d'
  assume "t' < length (tasks s')" and st': "task_status (tasks s' ! t') = Sleeping d'"
  then have t': "t' < length (tasks s)" by (simp add: T(1))
  from st' have ne: "t' \<noteq> t" and st: "task_status (tasks s ! t') = Sleeping d'"
    unfolding T(5)[OF t'] by (auto split: if_splits)
  from assms(1) t' st obtain ws where
    ws: "user_wait_states (the_plugin s) (task_key (tasks s ! t')) = Some ws"
      "timer_task ws = Some t'" "accumulated_messages ws \<noteq> []"
      "timestamp (last (accumulated_messages ws)) = waiting_since ws"
      "d' = waiting_since ws + silent_wait_duration (the_plugin s)"
    unfolding timers_consistent_def by blast
  have same: "user_wait_states (the_plugin s') (task_key (tasks s ! t')) = Some ws"
  proof (cases "task_key (tasks s ! t') = ?k")
    case False
    then show ?thesis by (simp add: T(7) ws(1))
  next
    case True
    from assms(2) show ?thesis
    proof (cases rule: wait_and_reply_cases)
      case cancelled
      have "\<not> task_done (tasks s) t'" using st by (simp add: task_done_def)
      then show ?thesis
        unfolding cancelled(3) using ws(1,2) True
        by (simp add: cleanup_wait_state_own)
    next
      case (fired d)
      from assms(1) fired(1,2) obtain ws2 where
        "user_wait_states (the_plugin s) ?k = Some ws2" "timer_task ws2 = Some t"
        unfolding timers_consistent_def by blast
      with ws(1,2) True ne show ?thesis by simp
    qed
  qed
  show "\<exists>ws. user_wait_states (the_plugin s') (task_key (tasks s' ! t')) = Some ws \<and>
              timer_task ws = Some t' \<and> accumulated_messages ws \<noteq> [] \<and>
              timestamp (last (accumulated_messages ws)) = waiting_since ws \<and>
              d' = waiting_since ws + silent_wait_duration (the_plugin s')"
    using same ws by (simp add: T(4)[OF t'] T(6))
qed

lemma quiet_respected_append:
  assumes "quiet_respected s"
    and "silent_wait_duration (the_plugin s') = silent_wait_duration (the_plugin s)"
    and "event_queue s' = event_queue s @ [h]"
    and "merged h \<noteq> []"
    and "timestamp (last (merged h)) + silent_wait_duration (the_plugin s) \<le> handed_at h"
  shows "quiet_respected s'"
  using assms unfolding quiet_respected_def by auto

lemma quiet_respected_same:
  assumes "quiet_respected s"
    and "silent_wait_duration (the_plugin s') = silent_wait_duration (the_plugin s)"
    and "event_queue s' = event_queue s"
  shows "quiet_respected s'"
  using assms unfolding quiet_respected_def by auto

lemma wait_and_reply_quiet:
  assumes "timers_consistent s" and "quiet_respected s"
    and "wait_and_reply now day ok t s = Some s'"
  shows "quiet_respected s'"
proof -
  note T = wait_and_reply_tasks[OF assms(3)]
  from assms(3) show ?thesis
  proof (cases rule: wait_and_reply_cases)
    case cancelled
    then have "event_queue s' = event_queue s" by simp
    then show ?thesis by (rule quiet_respected_same[OF assms(2) T(6)])
  next
    case (fired d)
    show ?thesis
    proof (rule fired_timer[OF assms(1) fired(1-3) refl fired(4)])
      fix ws
      assume ws: "accumulated_messages ws \<noteq> []"
      "timestamp (last (accumulated_messages ws)) + silent_wait_duration (the_plugin s) \<le> now"
      "event_queue s' =
       (if ok then event_queue s @
          [\<lparr>unit_event = (msg_event (hd (accumulated_messages ws)))
               \<lparr>message_str := join_lines (map content (accumulated_messages ws)),
                is_at_or_wake_command := True\<rparr>,
            handed_at = now, by_task = t, merged = accumulated_messages ws\<rparr>]
        else event_queue s)"
      show ?thesis
      proof (cases ok)
        case True
        with ws(3) have "event_queue s' = event_queue s @
          [\<lparr>unit_event = (msg_event (hd (accumulated_messages ws)))
               \<lparr>message_str := join_lines (map content (accumulated_messages ws)),
                is_at_or_wake_command := True\<rparr>,
            handed_at = now, by_task = t, merged = accumulated_messages ws\<rparr>]"
          by simp
        then show ?thesis
          by (rule quiet_respected_append[OF assms(2) T(6)]) (simp_all add: ws(1,2))
      next
        case False
        with ws(3) have "event_queue s' = event_queue s" by simp
        then show ?thesis by (rule quiet_respected_same[OF assms(2) T(6)])
      qed
    qed
  qed
qed

lemma wait_and_reply_units:
  assumes "timers_consistent s" and "units_merged s"
    and "wait_and_reply now day ok t s = Some s'"
  shows "units_merged s'"
proof -
  from assms(3) show ?thesis
  proof (cases rule: wait_and_reply_cases)
    case cancelled
    then have "event_queue s' = event_queue s" by simp
    with assms(2) show ?thesis by (simp add: units_merged_def)
  next
    case (fired d)
    show ?thesis
    proof (rule fired_timer[OF assms(1) fired(1-3) refl fired(4)])
      fix ws
      assume q: "event_queue s' =
       (if ok then event_queue s @
          [\<lparr>unit_event = (msg_event (hd (accumulated_messages ws)))
               \<lparr>message_str := join_lines (map content (accumulated_messages ws)),
                is_at_or_wake_command := True\<rparr>,
            handed_at = now, by_task = t, merged = accumulated_messages ws\<rparr>]
        else event_queue s)"
      from assms(2) show ?thesis
        unfolding units_merged_def q by (cases ok) simp_all
    qed
  qed
qed

lemma wait_and_reply_one_unit:
  assumes "timers_consistent s" and "one_unit_per_timer s"
    and "wait_and_reply now day ok t s = Some s'"
  shows "one_unit_per_timer s'"
proof -
  note T = wait_and_reply_tasks[OF assms(3)]
  from assms(2) have dist: "distinct (map by_task (event_queue s))"
    and fin: "\<And>h. h \<in> set (event_queue s) \<Longrightarrow>
        by_task h < length (tasks s) \<and> task_status (tasks s ! by_task h) = Finished"
    unfolding one_unit_per_timer_def by blast+
  have fin': "by_task h < length (tasks s') \<and> task_status (tasks s' ! by_task h) = Finished"
    if "h \<in> set (event_queue s)" for h
    using fin[OF that] by (simp add: T(1) T(5))
  have tnew: "t \<notin> by_task ` set (event_queue s)"
    using fin T(3) by auto
  have tfin: "t < length (tasks s') \<and> task_status (tasks s' ! t) = Finished"
    using T(2) by (simp add: T(1) T(5))
  from assms(3) show ?thesis
  proof (cases rule: wait_and_reply_cases)
    case cancelled
    then have "event_queue s' = event_queue s" by simp
    with dist fin' show ?thesis by (simp add: one_unit_per_timer_def)
  next
    case (fired d)
    show ?thesis
    proof (rule fired_timer[OF assms(1) fired(1-3) refl fired(4)])
      fix ws
      assume q: "event_queue s' =
       (if ok then event_queue s @
          [\<lparr>unit_event = (msg_event (hd (accumulated_messages ws)))
               \<lparr>message_str := join_lines (map content (accumulated_messages ws)),
                is_at_or_wake_command := True\<rparr>,
            handed_at = now, by_task = t, merged = accumulated_messages ws\<rparr>]
        else event_queue s)"
      from dist fin' tnew tfin show ?thesis
        unfolding one_unit_per_timer_def q by (cases ok) auto
    qed
  qed
qed

lemma message_key_event_update [simp]:
  "message_key (m\<lparr>msg_event := (msg_event m')\<lparr>message_str := x, is_at_or_wake_command := y\<rparr>\<rparr>) =
     message_key m'"
  by (simp add: message_key_def)

lemma wait_and_reply_keys:
  assumes "timers_consistent s" and "keys_respected s"
    and "wait_and_reply now day ok t s = Some s'"
  shows "keys_respected s'"
proof -
  note T = wait_and_reply_tasks[OF assms(3)]
  let ?k = "task_key (tasks s ! t)"
  from assms(2) have ent: "\<And>k ws m. user_wait_states (the_plugin s) k = Some ws \<Longrightarrow>
        m \<in> set (accumulated_messages ws) \<Longrightarrow> message_key m = k"
    and qu: "\<And>h m. h \<in> set (event_queue s) \<Longrightarrow> m \<in> set (merged h) \<Longrightarrow>
        message_key m = message_key (hd (merged h))"
    unfolding keys_respected_def by blast+
  from assms(3) show ?thesis
  proof (cases rule: wait_and_reply_cases)
    case cancelled
    have "message_key m = k"
      if a: "user_wait_states (the_plugin s') k = Some ws" "m \<in> set (accumulated_messages ws)"
      for k ws m
    proof (cases "k = ?k")
      case False
      with a ent show ?thesis by (simp add: T(7))
    next
      case True
      with a(1) have "user_wait_states (the_plugin s) k = Some ws"
        unfolding cancelled(3)
        by (simp add: cleanup_wait_state_own split: option.splits if_splits)
      with a(2) ent show ?thesis by blast
    qed
    moreover have "event_queue s' = event_queue s" using cancelled by simp
    ultimately show ?thesis using qu unfolding keys_respected_def by auto
  next
    case (fired d)
    show ?thesis
    proof (rule fired_timer[OF assms(1) fired(1-3) refl fired(4)])
      fix ws
      assume ws: "user_wait_states (the_plugin s) ?k = Some ws" "accumulated_messages ws \<noteq> []"
      "event_queue s' =
       (if ok then event_queue s @
          [\<lparr>unit_event = (msg_event (hd (accumulated_messages ws)))
               \<lparr>message_str := join_lines (map content (accumulated_messages ws)),
                is_at_or_wake_command := True\<rparr>,
            handed_at = now, by_task = t, merged = accumulated_messages ws\<rparr>]
        else event_queue s)"
      "user_wait_states (the_plugin s') ?k =
       Some (ws\<lparr>accumulated_messages :=
         (if ok then []
          else (hd (accumulated_messages ws))
                 \<lparr>msg_event := (msg_event (hd (accumulated_messages ws)))
                    \<lparr>message_str := join_lines (map content (accumulated_messages ws)),
                     is_at_or_wake_command := True\<rparr>\<rparr> # tl (accumulated_messages ws))\<rparr>)"
      from ws(2) obtain m0 ms where ms: "accumulated_messages ws = m0 # ms"
        by (cases "accumulated_messages ws") auto
      have k0: "message_key m = ?k" if "m \<in> set (accumulated_messages ws)" for m
        using ent[OF ws(1) that] .
      have e: "message_key m = k"
        if a: "user_wait_states (the_plugin s') k = Some ws'"
          "m \<in> set (accumulated_messages ws')"
        for k ws' m
      proof (cases "k = ?k")
        case False
        with a ent show ?thesis by (simp add: T(7))
      next
        case True
        with a(1) ws(4) have ws': "accumulated_messages ws' =
          (if ok then []
           else (hd (accumulated_messages ws))
                 \<lparr>msg_event := (msg_event (hd (accumulated_messages ws)))
                    \<lparr>message_str := join_lines (map content (accumulated_messages ws)),
                     is_at_or_wake_command := True\<rparr>\<rparr> # tl (accumulated_messages ws))"
          by auto
        show ?thesis
        proof (cases ok)
          case True
          with a(2) ws' show ?thesis by simp
        next
          case False
          with a(2) ws' have "m = m0\<lparr>msg_event := (msg_event m0)
                    \<lparr>message_str := join_lines (map content (accumulated_messages ws)),
                     is_at_or_wake_command := True\<rparr>\<rparr> \<or> m \<in> set ms"
            by (simp add: ms)
          with k0 \<open>k = ?k\<close> show ?thesis by (auto simp: ms)
        qed
      qed
      have u: "message_key m = message_key (hd (merged h))"
        if b: "h \<in> set (event_queue s')" "m \<in> set (merged h)" for h m
      proof (cases "h \<in> set (event_queue s)")
        case True
        with b(2) qu show ?thesis by blast
      next
        case False
        with b(1) ws(3) have "merged h = accumulated_messages ws"
          by (cases ok) auto
        with b(2) k0 show ?thesis by (simp add: ms)
      qed
      from e u show ?thesis unfolding keys_respected_def by blast
    qed
  qed
qed

lemma initial_system_invariant:
  assumes "user_wait_states p = Map.empty"
  shows "debounce_invariant (initial_system p)"
  using assms
  by (simp add: debounce_invariant_def initial_system_def timers_consistent_def
      quiet_respected_def units_merged_def one_unit_per_timer_def keys_respected_def)

lemma loop_step_invariant:
  assumes "debounce_invariant s" and "loop_step s x = Some s'"
  shows "debounce_invariant s'"
proof (cases x)
  case (Admit ct ev)
  with assms(2) have s': "s' = enter_silent_wait ct ev s" by simp
  from assms(1) show ?thesis
    unfolding s' debounce_invariant_def
    by (simp add: enter_silent_wait_timers enter_silent_wait_queue_properties
        enter_silent_wait_one_unit enter_silent_wait_keys)
next
  case (Resume now day ok t)
  with assms(2) have w: "wait_and_reply now day ok t s = Some s'" by simp
  from assms(1) show ?thesis
    unfolding debounce_invariant_def
    using wait_and_reply_timers[OF _ w] wait_and_reply_quiet[OF _ _ w]
      wait_and_reply_units[OF _ _ w] wait_and_reply_one_unit[OF _ _ w]
      wait_and_reply_keys[OF _ _ w]
    by blast
qed

lemma loop_run_invariant:
  assumes "debounce_invariant s" and "loop_run s xs = Some s'"
  shows "debounce_invariant s'"
  using assms
proof (induction xs arbitrary: s)
  case Nil
  then show ?case by simp
next
  case (Cons x xs)
  from Cons.prems(2) obtain s1 where s1: "loop_step s x = Some s1" "loop_run s1 xs = Some s'"
    by (auto split: option.splits)
  from Cons.IH[OF loop_step_invariant[OF Cons.prems(1) s1(1)] s1(2)] show ?case .
qed

lemma timers_consistent_one_timer:
  assumes "timers_consistent s"
  shows "one_timer_per_key s"
  unfolding one_timer_per_key_def
proof (intro allI impI)
  fix t t' d d'
  assume a: "t < length (tasks s)" "t' < length (tasks s)"
    "task_status (tasks s ! t) = Sleeping d" "task_status (tasks s ! t') = Sleeping d'"
    "task_key (tasks s ! t) = task_key (tasks s ! t')"
  from assms a(1,3) obtain ws where
    "user_wait_states (the_plugin s) (task_key (tasks s ! t)) = Some ws" "timer_task ws = Some t"
    unfolding timers_consistent_def by blast
  moreover from assms a(2,4) obtain ws' where
    "user_wait_states (the_plugin s) (task_key (tasks s ! t')) = Some ws'"
    "timer_task ws' = Some t'"
    unfolding timers_consistent_def by blast
  ultimately show "t = t'" using a(5) by simp
qed

text \<open>A timer whose cancellation was requested hands nothing off and leaves the chat
  states alone.\<close>

lemma cancelled_timer_is_silent:
  assumes "t < length (tasks s)" and "task_status (tasks s ! t) = CancelRequested"
  shows "\<exists>s'. wait_and_reply now day ok t s = Some s' \<and> event_queue s' = event_queue s \<and>
           chat_states (the_plugin s') = chat_states (the_plugin s)"
  using assms by (simp add: wait_and_reply_def Let_def)

text \<open>A message for a key whose timer is still pending cancels that timer.\<close>

lemma rearm_cancels:
  assumes "user_wait_states (the_plugin s) (user_key_of (unified_msg_origin ev) (sender_id ev)) =
      Some ws"
    and "timer_task ws = Some t" and "t < length (tasks s)"
    and "task_status (tasks s ! t) \<noteq> Finished"
  shows "task_status (tasks (enter_silent_wait ct ev s) ! t) = CancelRequested"
  using assms by (simp add: enter_silent_wait_tasks nth_append cancel_timer_status)

text \<open>Two messages of one sender in one chat, admitted at the times 0 and 3, with a quiet
  duration of 6.\<close>

lemma two_messages_run:
  assumes "user_wait_states p = Map.empty" and "silent_wait_duration p = 6"
    and "unified_msg_origin ev2 = unified_msg_origin ev1" and "sender_id ev2 = sender_id ev1"
  shows "map_option event_queue
           (loop_run (initial_system p) [Admit 0 ev1, Admit 3 ev2, Resume tc dc okc 0]) = Some []"
    and "t < 9 \<Longrightarrow>
         loop_run (initial_system p)
           [Admit 0 ev1, Admit 3 ev2, Resume tc dc okc 0, Resume t d ok 1] = None"
    and "9 \<le> t \<Longrightarrow>
         map_option event_queue
           (loop_run (initial_system p)
              [Admit 0 ev1, Admit 3 ev2, Resume tc dc okc 0, Resume t d True 1]) =
         Some [\<lparr>unit_event = ev1\<lparr>message_str := message_str ev1 @ [10] @ message_str ev2,
                                  is_at_or_wake_command := True\<rparr>,
                 handed_at = t, by_task = 1,
                 merged = [\<lparr>timestamp = 0, content = message_str ev1, msg_event = ev1\<rparr>,
                           \<lparr>timestamp = 3, content = message_str ev2, msg_event = ev2\<rparr>]\<rparr>]"
  using assms
  by (simp_all add: initial_system_def enter_silent_wait_def wait_and_reply_def
      merge_and_reply_def cleanup_wait_state_def finish_task_def task_done_def task_cancel_def
      cancel_timer_def combine_user_messages_def Let_def)

text \<open>
  C3. Start from a plugin without wait states. If one sender's admitted messages M1 and M2
  reach \<open>_enter_silent_wait\<close> at the times 0 and 3, with the quiet duration 6, then the timer
  armed for M1 hands nothing off when it is resumed, the timer armed for M2 cannot be resumed
  before the time 9, and when it is resumed at a time \<open>t \<ge> 9\<close> and the \<open>put\<close> returns, the queue
  holds exactly one unit, handed off at \<open>t\<close>, which merges M1 and M2 in this order. In general,
  after any sequence of admitted messages and resumed timers: every unit in the queue merges
  at least one message and was handed off no earlier than one quiet duration after the last
  message merged into it; it is the merge of its messages; no timer has handed off two units,
  and each key has at most one live timer; a message for a key whose timer is pending cancels
  that timer, and a cancelled timer hands nothing off and does not touch the chat states.
\<close>

theorem debounce_coalescing:
  assumes "user_wait_states p = Map.empty"
  shows "(silent_wait_duration p = 6 \<and> unified_msg_origin ev2 = unified_msg_origin ev1 \<and>
      sender_id ev2 = sender_id ev1 \<longrightarrow>
        map_option event_queue
          (loop_run (initial_system p) [Admit 0 ev1, Admit 3 ev2, Resume tc dc okc 0]) = Some [] \<and>
        (t < 9 \<longrightarrow>
           loop_run (initial_system p)
             [Admit 0 ev1, Admit 3 ev2, Resume tc dc okc 0, Resume t d True 1] = None) \<and>
        (9 \<le> t \<longrightarrow>
           map_option event_queue
             (loop_run (initial_system p)
                [Admit 0 ev1, Admit 3 ev2, Resume tc dc okc 0, Resume t d True 1]) =
           Some [\<lparr>unit_event = ev1\<lparr>message_str := message_str ev1 @ [10] @ message_str ev2,
                                    is_at_or_wake_command := True\<rparr>,
                   handed_at = t, by_task = 1,
                   merged = [\<lparr>timestamp = 0, content = message_str ev1, msg_event = ev1\<rparr>,
                             \<lparr>timestamp = 3, content = message_str ev2, msg_event = ev2\<rparr>]\<rparr>])) \<and>
    (\<forall>xs s. loop_run (initial_system p) xs = Some s \<longrightarrow>
       quiet_respected s \<and> units_merged s \<and> one_unit_per_timer s \<and> one_timer_per_key s) \<and>
    (\<forall>s ev ws k ct. user_wait_states (the_plugin s)
          (user_key_of (unified_msg_origin ev) (sender_id ev)) = Some ws \<and>
        timer_task ws = Some k \<and> k < length (tasks s) \<and> task_status (tasks s ! k) \<noteq> Finished \<longrightarrow>
        task_status (tasks (enter_silent_wait ct ev s) ! k) = CancelRequested) \<and>
    (\<forall>s k now day ok. k < length (tasks s) \<and> task_status (tasks s ! k) = CancelRequested \<longrightarrow>
       (\<exists>s'. wait_and_reply now day ok k s = Some s' \<and> event_queue s' = event_queue s \<and>
             chat_states (the_plugin s') = chat_states (the_plugin s)))"
proof -
  have g: "quiet_respected s \<and> units_merged s \<and> one_unit_per_timer s \<and> one_timer_per_key s"
    if "loop_run (initial_system p) xs = Some s" for xs s
  proof -
    from loop_run_invariant[OF initial_system_invariant[OF assms] that]
    have i: "timers_consistent s" "quiet_respected s" "units_merged s" "one_unit_per_timer s"
      unfolding debounce_invariant_def by blast+
    with timers_consistent_one_timer[OF i(1)] show ?thesis by blast
  qed
  have sc: "map_option event_queue
          (loop_run (initial_system p) [Admit 0 ev1, Admit 3 ev2, Resume tc dc okc 0]) = Some [] \<and>
        (t < 9 \<longrightarrow>
           loop_run (initial_system p)
             [Admit 0 ev1, Admit 3 ev2, Resume tc dc okc 0, Resume t d True 1] = None) \<and>
        (9 \<le> t \<longrightarrow>
           map_option event_queue
             (loop_run (initial_system p)
                [Admit 0 ev1, Admit 3 ev2, Resume tc dc okc 0, Resume t d True 1]) =
           Some [\<lparr>unit_event = ev1\<lparr>message_str := message_str ev1 @ [10] @ message_str ev2,
                                    is_at_or_wake_command := True\<rparr>,
                   handed_at = t, by_task = 1,
                   merged = [\<lparr>timestamp = 0, content = message_str ev1, msg_event = ev1\<rparr>,
                             \<lparr>timestamp = 3, content = message_str ev2, msg_event = ev2\<rparr>]\<rparr>])"
    if h: "silent_wait_duration p = 6 \<and> unified_msg_origin ev2 = unified_msg_origin ev1 \<and>
      sender_id ev2 = sender_id ev1"
  proof (intro conjI impI)
    from h have h1: "silent_wait_duration p = 6"
      and h2: "unified_msg_origin ev2 = unified_msg_origin ev1"
      and h3: "sender_id ev2 = sender_id ev1" by simp_all
    show "map_option event_queue
          (loop_run (initial_system p) [Admit 0 ev1, Admit 3 ev2, Resume tc dc okc 0]) = Some []"
      by (rule two_messages_run(1)[OF assms h1 h2 h3])
    show "loop_run (initial_system p)
             [Admit 0 ev1, Admit 3 ev2, Resume tc dc okc 0, Resume t d True 1] = None"
      if "t < 9"
      by (rule two_messages_run(2)[OF assms h1 h2 h3 that])
    show "map_option event_queue
             (loop_run (initial_system p)
                [Admit 0 ev1, Admit 3 ev2, Resume tc dc okc 0, Resume t d True 1]) =
           Some [\<lparr>unit_event = ev1\<lparr>message_str := message_str ev1 @ [10] @ message_str ev2,
                                    is_at_or_wake_command := True\<rparr>,
                   handed_at = t, by_task = 1,
                   merged = [\<lparr>timestamp = 0, content = message_str ev1, msg_event = ev1\<rparr>,
                             \<lparr>timestamp = 3, content = message_str ev2, msg_event = ev2\<rparr>]\<rparr>]"
      if "9 \<le> t"
      by (rule two_messages_run(3)[OF assms h1 h2 h3 that])
  qed
  have ra: "task_status (tasks (enter_silent_wait ct ev s) ! k) = CancelRequested"
    if "user_wait_states (the_plugin s)
          (user_key_of (unified_msg_origin ev) (sender_id ev)) = Some ws \<and>
        timer_task ws = Some k \<and> k < length (tasks s) \<and> task_status (tasks s ! k) \<noteq> Finished"
    for s ev ws k ct
    using that rearm_cancels[of s ev ws k ct] by blast
  have cs: "\<exists>s'. wait_and_reply now day ok k s = Some s' \<and> event_queue s' = event_queue s \<and>
             chat_states (the_plugin s') = chat_states (the_plugin s)"
    if "k < length (tasks s) \<and> task_status (tasks s ! k) = CancelRequested"
    for s k now day ok
    using that cancelled_timer_is_silent[of k s now day ok] by blast
  show ?thesis
  proof (intro conjI allI impI)
    show "\<And>xs s. loop_run (initial_system p) xs = Some s \<Longrightarrow> quiet_respected s"
      "\<And>xs s. loop_run (initial_system p) xs = Some s \<Longrightarrow> units_merged s"
      "\<And>xs s. loop_run (initial_system p) xs = Some s \<Longrightarrow> one_unit_per_timer s"
      "\<And>xs s. loop_run (initial_system p) xs = Some s \<Longrightarrow> one_timer_per_key s"
      using g by blast+
  qed (use sc ra cs in \<open>blast+\<close>)
qed

lemma tired_plugin_debounce:
  "user_wait_states tired_plugin = Map.empty" "silent_wait_duration tired_plugin = 6"
  by (simp_all add: tired_plugin_def default_plugin_def)

lemma hello_again_same_sender:
  "unified_msg_origin again_event = unified_msg_origin hello_event"
  "sender_id again_event = sender_id hello_event"
  by (simp_all add: again_event_def hello_event_def)

text \<open>The messages \<open>hello\<close> at time 0 and \<open>anyone?\<close> at time 3: one unit at time 9, none
  before; and the properties of the queue afterwards.\<close>

theorem debounce_coalescing_witness:
  "user_wait_states tired_plugin = Map.empty \<and> silent_wait_duration tired_plugin = 6 \<and>
   unified_msg_origin again_event = unified_msg_origin hello_event \<and>
   sender_id again_event = sender_id hello_event \<and>
   map_option event_queue
     (loop_run (initial_system tired_plugin)
        [Admit 0 hello_event, Admit 3 again_event, Resume 3 (ascii ''2025-01-02'') True 0]) =
     Some [] \<and>
   loop_run (initial_system tired_plugin)
     [Admit 0 hello_event, Admit 3 again_event, Resume 3 (ascii ''2025-01-02'') True 0,
      Resume 8 (ascii ''2025-01-02'') True 1] = None \<and>
   map_option event_queue
     (loop_run (initial_system tired_plugin)
        [Admit 0 hello_event, Admit 3 again_event, Resume 3 (ascii ''2025-01-02'') True 0,
         Resume 9 (ascii ''2025-01-02'') True 1]) =
     Some [\<lparr>unit_event = hello_event\<lparr>message_str := ascii ''hello'' @ [10] @ ascii ''anyone?'',
                                      is_at_or_wake_command := True\<rparr>,
             handed_at = 9, by_task = 1, merged = [hello_message, again_message]\<rparr>] \<and>
   map_option quiet_respected
     (loop_run (initial_system tired_plugin)
        [Admit 0 hello_event, Admit 3 again_event, Resume 3 (ascii ''2025-01-02'') True 0,
         Resume 9 (ascii ''2025-01-02'') True 1]) = Some True \<and>
   map_option one_unit_per_timer
     (loop_run (initial_system tired_plugin)
        [Admit 0 hello_event, Admit 3 again_event, Resume 3 (ascii ''2025-01-02'') True 0,
         Resume 9 (ascii ''2025-01-02'') True 1]) = Some True"
proof -
  let ?d = "ascii ''2025-01-02''"
  let ?xs = "[Admit 0 hello_event, Admit 3 again_event, Resume 3 ?d True 0]"
  let ?run = "\<lambda>t. loop_run (initial_system tired_plugin)
      [Admit 0 hello_event, Admit 3 again_event, Resume 3 ?d True 0, Resume t ?d True 1]"
  note T8 = debounce_coalescing[OF tired_plugin_debounce(1), of again_event hello_event 3 ?d True
      8 ?d]
  note T9 = debounce_coalescing[OF tired_plugin_debounce(1), of again_event hello_event 3 ?d True
      9 ?d]
  have h: "silent_wait_duration tired_plugin = 6 \<and>
      unified_msg_origin again_event = unified_msg_origin hello_event \<and>
      sender_id again_event = sender_id hello_event"
    by (simp add: tired_plugin_debounce hello_again_same_sender)
  have lt: "(8::real) < 9" and le: "(9::real) \<le> 9" by simp_all
  from T8 h lt have a: "map_option event_queue (loop_run (initial_system tired_plugin) ?xs) = Some []"
    and b: "?run 8 = None"
    by blast+
  from T9 h have c: "map_option event_queue (?run 9) =
      Some [\<lparr>unit_event = hello_event\<lparr>message_str :=
                  message_str hello_event @ [10] @ message_str again_event,
                is_at_or_wake_command := True\<rparr>,
             handed_at = 9, by_task = 1,
             merged = [\<lparr>timestamp = 0, content = message_str hello_event,
                         msg_event = hello_event\<rparr>,
                       \<lparr>timestamp = 3, content = message_str again_event,
                         msg_event = again_event\<rparr>]\<rparr>]"
    by blast
  then obtain s where s: "?run 9 = Some s" by (cases "?run 9") simp_all
  from T9[THEN conjunct2, THEN conjunct1, rule_format, OF s]
  have "quiet_respected s \<and> one_unit_per_timer s" by blast
  with s have g: "map_option quiet_respected (?run 9) = Some True"
    "map_option one_unit_per_timer (?run 9) = Some True" by simp_all
  have m: "message_str hello_event = ascii ''hello''" "message_str again_event = ascii ''anyone?''"
    "\<lparr>timestamp = 0, content = ascii ''hello'', msg_event = hello_event\<rparr> = hello_message"
    "\<lparr>timestamp = 3, content = ascii ''anyone?'', msg_event = again_event\<rparr> = again_message"
    by (simp_all add: hello_event_def again_event_def hello_message_def again_message_def)
  from h a b c[unfolded m] g tired_plugin_debounce(1) show ?thesis by (simp only: simp_thms)
qed

lemma user_key_of_same_chat: "user_key_of c u = user_key_of c u' \<longleftrightarrow> u = u'"
  by (simp add: user_key_of_def)

lemma user_key_of_same_sender: "user_key_of c u = user_key_of c' u \<longleftrightarrow> c = c'"
  by (simp add: user_key_of_def)

lemma same_key_same_sender:
  assumes "message_key m = message_key m'"
    and "unified_msg_origin (msg_event m) = unified_msg_origin (msg_event m')"
  shows "sender_id (msg_event m) = sender_id (msg_event m')"
  using assms by (simp add: message_key_def user_key_of_same_chat)

text \<open>
  C7 (as amended). Start from a plugin without wait states. After any sequence of admitted
  messages and resumed timers, every message accumulated under an entry has the key of that
  entry, \<open>chat_id + "_" + sender_id\<close>, and the messages merged into one unit all have the
  same key. Two senders in one chat have different keys, and so have two chats for one
  sender: messages of two different senders in the same chat are never accumulated under one
  entry and never merged into one unit.
\<close>

theorem debounce_isolation:
  assumes "user_wait_states p = Map.empty" and "loop_run (initial_system p) xs = Some s"
  shows "keys_respected s \<and>
    (\<forall>c u u'. user_key_of c u = user_key_of c u' \<longleftrightarrow> u = u') \<and>
    (\<forall>c c' u. user_key_of c u = user_key_of c' u \<longleftrightarrow> c = c') \<and>
    (\<forall>k ws m m'. user_wait_states (the_plugin s) k = Some ws \<and>
       m \<in> set (accumulated_messages ws) \<and> m' \<in> set (accumulated_messages ws) \<and>
       unified_msg_origin (msg_event m) = unified_msg_origin (msg_event m') \<longrightarrow>
       sender_id (msg_event m) = sender_id (msg_event m')) \<and>
    (\<forall>h m m'. h \<in> set (event_queue s) \<and> m \<in> set (merged h) \<and> m' \<in> set (merged h) \<and>
       unified_msg_origin (msg_event m) = unified_msg_origin (msg_event m') \<longrightarrow>
       sender_id (msg_event m) = sender_id (msg_event m'))"
proof -
  from loop_run_invariant[OF initial_system_invariant[OF assms(1)] assms(2)]
  have k: "keys_respected s" by (simp add: debounce_invariant_def)
  have ent: "message_key m = k"
    if "user_wait_states (the_plugin s) k = Some ws" "m \<in> set (accumulated_messages ws)"
    for k ws m
    using k that unfolding keys_respected_def by blast
  have qu: "message_key m = message_key (hd (merged h))"
    if "h \<in> set (event_queue s)" "m \<in> set (merged h)" for h m
    using k that unfolding keys_respected_def by blast
  have a: "sender_id (msg_event m) = sender_id (msg_event m')"
    if "user_wait_states (the_plugin s) k = Some ws \<and>
       m \<in> set (accumulated_messages ws) \<and> m' \<in> set (accumulated_messages ws) \<and>
       unified_msg_origin (msg_event m) = unified_msg_origin (msg_event m')" for k ws m m'
  proof -
    from that have w: "user_wait_states (the_plugin s) k = Some ws"
      and m: "m \<in> set (accumulated_messages ws)" and m': "m' \<in> set (accumulated_messages ws)"
      and o: "unified_msg_origin (msg_event m) = unified_msg_origin (msg_event m')"
      by simp_all
    from ent[OF w m] ent[OF w m'] have "message_key m = message_key m'" by simp
    then show ?thesis using o by (rule same_key_same_sender)
  qed
  have b: "sender_id (msg_event m) = sender_id (msg_event m')"
    if "h \<in> set (event_queue s) \<and> m \<in> set (merged h) \<and> m' \<in> set (merged h) \<and>
       unified_msg_origin (msg_event m) = unified_msg_origin (msg_event m')" for h m m'
  proof -
    from that have h: "h \<in> set (event_queue s)"
      and m: "m \<in> set (merged h)" and m': "m' \<in> set (merged h)"
      and o: "unified_msg_origin (msg_event m) = unified_msg_origin (msg_event m')"
      by simp_all
    from qu[OF h m] qu[OF h m'] have "message_key m = message_key m'" by simp
    then show ?thesis using o by (rule same_key_same_sender)
  qed
  show ?thesis
  proof (intro conjI allI impI)
    show "keys_respected s" by (rule k)
  next
    fix c u u' show "user_key_of c u = user_key_of c u' \<longleftrightarrow> u = u'"
      by (rule user_key_of_same_chat)
  next
    fix c c' u show "user_key_of c u = user_key_of c' u \<longleftrightarrow> c = c'"
      by (rule user_key_of_same_sender)
  next
    fix k ws m m'
    assume "user_wait_states (the_plugin s) k = Some ws \<and>
       m \<in> set (accumulated_messages ws) \<and> m' \<in> set (accumulated_messages ws) \<and>
       unified_msg_origin (msg_event m) = unified_msg_origin (msg_event m')"
    then show "sender_id (msg_event m) = sender_id (msg_event m')" by (rule a)
  next
    fix h m m'
    assume "h \<in> set (event_queue s) \<and> m \<in> set (merged h) \<and> m' \<in> set (merged h) \<and>
       unified_msg_origin (msg_event m) = unified_msg_origin (msg_event m')"
    then show "sender_id (msg_event m) = sender_id (msg_event m')" by (rule b)
  qed
qed

text \<open>The run of \<open>hello\<close> and \<open>anyone?\<close> respects the keys, and another user of chat \<open>g1\<close>
  has another key.\<close>

theorem debounce_isolation_witness:
  "user_wait_states tired_plugin = Map.empty \<and>
   map_option keys_respected
     (loop_run (initial_system tired_plugin)
        [Admit 0 hello_event, Admit 3 again_event, Resume 3 (ascii ''2025-01-02'') True 0,
         Resume 9 (ascii ''2025-01-02'') True 1]) = Some True \<and>
   user_key_of (ascii ''g1'') (ascii ''u1'') \<noteq> user_key_of (ascii ''g1'') (ascii ''u2'')"
proof -
  let ?run = "loop_run (initial_system tired_plugin)
        [Admit 0 hello_event, Admit 3 again_event, Resume 3 (ascii ''2025-01-02'') True 0,
         Resume 9 (ascii ''2025-01-02'') True 1]"
  have le: "(9::real) \<le> 9" by simp
  have "\<exists>u. map_option event_queue ?run = Some u"
    by (rule exI, rule two_messages_run(3)[OF tired_plugin_debounce hello_again_same_sender le])
  then obtain u where "map_option event_queue ?run = Some u" ..
  then obtain s where s: "?run = Some s" by (cases ?run) simp_all
  note T = debounce_isolation[OF tired_plugin_debounce(1) s]
  have k: "keys_respected s" by (rule T[THEN conjunct1])
  have "user_key_of (ascii ''g1'') (ascii ''u1'') = user_key_of (ascii ''g1'') (ascii ''u2'')
      \<longleftrightarrow> ascii ''u1'' = ascii ''u2''"
    by (rule T[THEN conjunct2, THEN conjunct1, rule_format])
  moreover have "ascii ''u1'' \<noteq> ascii ''u2''" by (simp add: ascii_def)
  ultimately have n: "user_key_of (ascii ''g1'') (ascii ''u1'') \<noteq>
      user_key_of (ascii ''g1'') (ascii ''u2'')" by (simp only: simp_thms)
  from k have k': "map_option keys_respected ?run = Some True" by (simp only: s option.map simp_thms)
  from tired_plugin_debounce(1) k' n show ?thesis by (simp only: simp_thms)
qed

text \<open>
  C7 as stated fails for pairs that differ in the chat and in the sender. User \<open>c\<close> in chat
  \<open>a_b\<close> and user \<open>b_c\<close> in chat \<open>a\<close> have the same key \<open>a_b_c\<close>: the second message is
  accumulated under the entry of the first, and the two are merged into one unit.
\<close>

theorem distinct_pairs_merged:
  "unified_msg_origin left_event \<noteq> unified_msg_origin right_event \<and>
   sender_id left_event \<noteq> sender_id right_event \<and>
   map_option (\<lambda>s. map_option (map msg_event \<circ> accumulated_messages)
                      (user_wait_states (the_plugin s) (ascii ''a_b_c'')))
     (loop_run (initial_system tired_plugin) [Admit 0 left_event, Admit 3 right_event]) =
     Some (Some [left_event, right_event]) \<and>
   map_option (map (\<lambda>h. (map msg_event (merged h), message_str (unit_event h))) \<circ> event_queue)
     (loop_run (initial_system tired_plugin)
        [Admit 0 left_event, Admit 3 right_event, Resume 3 (ascii ''2025-01-02'') True 0,
         Resume 9 (ascii ''2025-01-02'') True 1]) =
     Some [([left_event, right_event], ascii ''left'' @ [10] @ ascii ''right'')]"
  by (simp add: initial_system_def tired_plugin_def default_plugin_def left_event_def
      right_event_def enter_silent_wait_def wait_and_reply_def merge_and_reply_def
      cleanup_wait_state_def finish_task_def task_done_def task_cancel_def cancel_timer_def
      combine_user_messages_def update_active_state_def get_chat_state_def user_key_of_def
      ascii_def Let_def)

text \<open>
  C6. One admitted message, its timer resumed after the quiet duration, the \<open>put\<close>
  returning: the unit is handed off and the timer finishes, but the entry of the key is
  still in the wait-state map afterwards, with no accumulated message. The \<open>finally\<close> block
  asks whether the timer of the entry is done while that very timer is still running.
\<close>

theorem entry_survives_handoff:
  "map_option (\<lambda>s. (user_wait_states (the_plugin s) (ascii ''g1_u1''),
                     map task_status (tasks s),
                     map (message_str \<circ> unit_event) (event_queue s)))
     (loop_run (initial_system tired_plugin)
        [Admit 0 hello_event, Resume 6 (ascii ''2025-01-02'') True 0]) =
   Some (Some \<lparr>user_id = ascii ''u1'', start_time = 0, accumulated_messages = [],
                timer_task = Some 0, waiting_since = 0\<rparr>,
         [Finished], [ascii ''hello''])"
  by (simp add: initial_system_def tired_plugin_def default_plugin_def hello_event_def
      enter_silent_wait_def wait_and_reply_def merge_and_reply_def cleanup_wait_state_def
      finish_task_def task_done_def task_cancel_def cancel_timer_def combine_user_messages_def
      update_active_state_def get_chat_state_def user_key_of_def ascii_def Let_def)

end
